theory Spec2Isabelle
  imports Main
begin

section \<open>The transport layer of the Bitbucket client (src/utils/transport.util.ts)\<close>

subsection \<open>JavaScript strings\<close>

text \<open>
  A JavaScript string is a sequence of UTF-16 code units. It is modelled as the list of
  its code units, each a natural number. \<open>js\<close> turns a literal of the source into such
  a list.
\<close>

type_synonym jsstring = "nat list"

definition js :: "string \<Rightarrow> jsstring" where
  "js s = map of_char s"

text \<open>Truthiness of a value of type \<open>string | undefined\<close>: defined and not empty.\<close>

fun truthy_str :: "jsstring option \<Rightarrow> bool" where
  "truthy_str None = False"
| "truthy_str (Some s) = (s \<noteq> [])"

text \<open>The operator \<open>a || b\<close> on such values, and \<open>a || d\<close> with a string \<open>d\<close>.\<close>

definition js_or :: "jsstring option \<Rightarrow> jsstring option \<Rightarrow> jsstring option" where
  "js_or a b = (if truthy_str a then a else b)"

definition orDefault :: "jsstring option \<Rightarrow> jsstring \<Rightarrow> jsstring" where
  "orDefault a d = (case a of None \<Rightarrow> d | Some s \<Rightarrow> if s = [] then d else s)"

text \<open>\<open>s.startsWith(p)\<close> and \<open>s.includes(p)\<close>.\<close>

definition startsWith :: "jsstring \<Rightarrow> jsstring \<Rightarrow> bool" where
  "startsWith s p = (take (length p) s = p)"

fun includesStr :: "jsstring \<Rightarrow> jsstring \<Rightarrow> bool" where
  "includesStr [] p = (p = [])"
| "includesStr (c # cs) p = (startsWith (c # cs) p \<or> includesStr cs p)"

text \<open>
  The code units that \<open>String.prototype.trim\<close> and \<open>parseInt\<close> skip: the white space
  and line terminators of ECMAScript (TAB, LF, VT, FF, CR, SP, NBSP, U+1680,
  U+2000 to U+200A, U+2028, U+2029, U+202F, U+205F, U+3000, U+FEFF).
\<close>

definition isWhiteSpace :: "nat \<Rightarrow> bool" where
  "isWhiteSpace c =
     (c \<in> {9, 10, 11, 12, 13, 32, 160, 5760, 8232, 8233, 8239, 8287, 12288, 65279}
      \<or> (8192 \<le> c \<and> c \<le> 8202))"

definition trim :: "jsstring \<Rightarrow> jsstring" where
  "trim s = rev (dropWhile isWhiteSpace (rev (dropWhile isWhiteSpace s)))"

definition isDigit :: "nat \<Rightarrow> bool" where
  "isDigit c = (48 \<le> c \<and> c \<le> 57)"

text \<open>The number a sequence of decimal digits denotes, and the decimal digits of a number.\<close>

definition digitsValue :: "jsstring \<Rightarrow> nat" where
  "digitsValue ds = foldl (\<lambda>n c. 10 * n + (c - 48)) 0 ds"

fun show_nat :: "nat \<Rightarrow> jsstring" where
  "show_nat n = (if n < 10 then [48 + n] else show_nat (n div 10) @ [48 + n mod 10])"

declare show_nat.simps [simp del]

text \<open>
  \<open>parseInt(s, 10)\<close>: leading white space is skipped, a sign is read, then the longest
  run of decimal digits; what follows is ignored. \<open>None\<close> is NaN (no digit). The result
  is kept exact; JavaScript rounds it to a double, which changes no comparison with an
  integer below \<open>2^53\<close>.
\<close>

definition parseInt :: "jsstring \<Rightarrow> int option" where
  "parseInt s =
    (let t = dropWhile isWhiteSpace s;
         neg = (t \<noteq> [] \<and> hd t = 45);
         u = (if t \<noteq> [] \<and> (hd t = 45 \<or> hd t = 43) then tl t else t);
         ds = takeWhile isDigit u
     in if ds = [] then None
        else Some (if neg then - int (digitsValue ds) else int (digitsValue ds)))"

subsection \<open>JSON values\<close>

text \<open>
  The values \<open>JSON.parse\<close> produces and \<open>JSON.stringify\<close> accepts. A number
  \<open>JNum m e\<close> is the decimal \<open>m * 10^e\<close>, kept exact; the runtime holds the double
  nearest to it. The members of an object are listed once each, in the order of their
  first occurrence.
\<close>

datatype json = JNull | JBool bool | JNum int int | JStr jsstring
  | JArr "json list" | JObj "(jsstring \<times> json) list"

text \<open>
  The double nearest to \<open>m * 10^e\<close> is zero when the decimal is at most \<open>2^-1075\<close>
  in magnitude (half the least positive double), and infinite when it is at least
  \<open>2^1024 - 2^970\<close> (half way from the greatest double to \<open>2^1024\<close>).
\<close>

definition numIsZero :: "int \<Rightarrow> int \<Rightarrow> bool" where
  "numIsZero m e = (if 0 \<le> e then m = 0 else \<bar>m\<bar> * 2 ^ 1075 \<le> 10 ^ nat (- e))"

definition numOverflows :: "int \<Rightarrow> int \<Rightarrow> bool" where
  "numOverflows m e =
     (if 0 \<le> e then 2 ^ 1024 - 2 ^ 970 \<le> \<bar>m\<bar> * 10 ^ nat e
      else (2 ^ 1024 - 2 ^ 970) * 10 ^ nat (- e) \<le> \<bar>m\<bar>)"

text \<open>Truthiness of a value, and of a property that may be undefined.\<close>

fun truthy :: "json \<Rightarrow> bool" where
  "truthy JNull = False"
| "truthy (JBool b) = b"
| "truthy (JNum m e) = (\<not> numIsZero m e)"
| "truthy (JStr s) = (s \<noteq> [])"
| "truthy (JArr es) = True"
| "truthy (JObj ms) = True"

fun truthyOpt :: "json option \<Rightarrow> bool" where
  "truthyOpt None = False"
| "truthyOpt (Some v) = truthy v"

text \<open>
  Reading a property of a value other than \<open>null\<close>: an object yields the member, if it
  has one; arrays, strings, numbers and booleans have none of the properties the
  transport layer reads (\<open>type\<close>, \<open>error\<close>, \<open>errors\<close>, \<open>message\<close>, \<open>detail\<close>,
  \<open>title\<close>). \<open>None\<close> is \<open>undefined\<close>.
\<close>

fun getProp :: "json \<Rightarrow> jsstring \<Rightarrow> json option" where
  "getProp (JObj ms) k = map_of ms k"
| "getProp _ k = None"

fun joinWith :: "jsstring \<Rightarrow> jsstring list \<Rightarrow> jsstring" where
  "joinWith sep [] = []"
| "joinWith sep [x] = x"
| "joinWith sep (x # y # ys) = x @ sep @ joinWith sep (y # ys)"

text \<open>
  Conversion of a value to a string, as a template literal and \<open>+\<close> with a string do
  it. The text of a number is the runtime's (\<open>Number.prototype.toString\<close>), the parameter
  \<open>nts\<close>: \<open>nts m e\<close> is the text of the double nearest to \<open>m * 10^e\<close>.
\<close>

fun toString :: "(int \<Rightarrow> int \<Rightarrow> jsstring) \<Rightarrow> json \<Rightarrow> jsstring" where
  "toString nts JNull = js ''null''"
| "toString nts (JBool b) = (if b then js ''true'' else js ''false'')"
| "toString nts (JNum m e) = nts m e"
| "toString nts (JStr s) = s"
| "toString nts (JArr es) =
     joinWith (js '','') (map (\<lambda>v. if v = JNull then [] else toString nts v) es)"
| "toString nts (JObj ms) = js ''[object Object]''"

subsection \<open>JSON.parse\<close>

text \<open>
  \<open>JSON.parse\<close> in two passes: the text is cut into tokens, then a stack machine reads
  the tokens. \<open>None\<close> is the SyntaxError the runtime throws.
\<close>

datatype token = TLBrace | TRBrace | TLBracket | TRBracket | TColon | TComma | TValue json

definition hexValue :: "nat \<Rightarrow> nat option" where
  "hexValue c = (if 48 \<le> c \<and> c \<le> 57 then Some (c - 48)
     else if 65 \<le> c \<and> c \<le> 70 then Some (c - 55)
     else if 97 \<le> c \<and> c \<le> 102 then Some (c - 87)
     else None)"

text \<open>The escapes \<open>\\"\<close>, \<open>\\\\\<close>, \<open>\\/\<close>, \<open>\\b\<close>, \<open>\\f\<close>, \<open>\\n\<close>, \<open>\\r\<close>, \<open>\\t\<close>.\<close>

definition simpleEscape :: "nat \<Rightarrow> nat option" where
  "simpleEscape c = map_of [(34, 34), (92, 92), (47, 47), (98, 8), (102, 12), (110, 10),
     (114, 13), (116, 9)] c"

definition consUnit :: "nat \<Rightarrow> (jsstring \<times> jsstring) option \<Rightarrow> (jsstring \<times> jsstring) option" where
  "consUnit c x = map_option (\<lambda>(s, r). (c # s, r)) x"

text \<open>
  The rest of a string literal after its opening quote: the string it denotes and the
  text after the closing quote. A control character (below U+0020) ends the parse.
\<close>

fun scanString :: "jsstring \<Rightarrow> (jsstring \<times> jsstring) option" where
  "scanString [] = None"
| "scanString (c # cs) =
    (if c = 34 then Some ([], cs)
     else if c = 92 then
       (case cs of
          [] \<Rightarrow> None
        | e # cs' \<Rightarrow>
           if e = 117 then
             (case cs' of
                h1 # h2 # h3 # h4 # cs'' \<Rightarrow>
                  (case (hexValue h1, hexValue h2, hexValue h3, hexValue h4) of
                     (Some a, Some b, Some c', Some d) \<Rightarrow>
                       consUnit (((a * 16 + b) * 16 + c') * 16 + d) (scanString cs'')
                   | _ \<Rightarrow> None)
              | _ \<Rightarrow> None)
           else
             (case simpleEscape e of
                None \<Rightarrow> None
              | Some x \<Rightarrow> consUnit x (scanString cs')))
     else if c < 32 then None
     else consUnit c (scanString cs))"

text \<open>
  The three parts of a number: the integer part (no leading zero), the optional
  fraction, the optional exponent.
\<close>

definition scanInt :: "jsstring \<Rightarrow> (jsstring \<times> jsstring) option" where
  "scanInt s =
    (let ip = takeWhile isDigit s in
     if ip = [] \<or> (length ip > 1 \<and> hd ip = 48) then None
     else Some (ip, dropWhile isDigit s))"

definition scanFrac :: "jsstring \<Rightarrow> (jsstring \<times> jsstring) option" where
  "scanFrac s =
    (if s \<noteq> [] \<and> hd s = 46 then
       (if takeWhile isDigit (tl s) = [] then None
        else Some (takeWhile isDigit (tl s), dropWhile isDigit (tl s)))
     else Some ([], s))"

definition scanExp :: "jsstring \<Rightarrow> (int \<times> jsstring) option" where
  "scanExp s =
    (if s \<noteq> [] \<and> (hd s = 101 \<or> hd s = 69) then
       (let r = tl s;
            neg = (r \<noteq> [] \<and> hd r = 45);
            u = (if r \<noteq> [] \<and> (hd r = 45 \<or> hd r = 43) then tl r else r)
        in if takeWhile isDigit u = [] then None
           else Some (if neg then - int (digitsValue (takeWhile isDigit u))
                      else int (digitsValue (takeWhile isDigit u)),
                      dropWhile isDigit u))
     else Some (0, s))"

definition scanNumber :: "jsstring \<Rightarrow> (json \<times> jsstring) option" where
  "scanNumber s =
    (let neg = (s \<noteq> [] \<and> hd s = 45) in
     case scanInt (if neg then tl s else s) of
       None \<Rightarrow> None
     | Some (ip, r2) \<Rightarrow>
        (case scanFrac r2 of
           None \<Rightarrow> None
         | Some (fp, r3) \<Rightarrow>
            (case scanExp r3 of
               None \<Rightarrow> None
             | Some (ex, r4) \<Rightarrow>
                 Some (JNum (if neg then - int (digitsValue (ip @ fp))
                             else int (digitsValue (ip @ fp)))
                            (ex - int (length fp)), r4))))"

text \<open>Each scanner consumes what it reads: the tokenizer below terminates.\<close>

lemma consUnit_Some: "consUnit c x = Some (s, r) \<Longrightarrow> \<exists>s'. x = Some (s', r)"
  by (auto simp: consUnit_def)

lemma scanString_length: "scanString cs = Some (s, r) \<Longrightarrow> length r < length cs"
proof (induction "length cs" arbitrary: cs s r rule: less_induct)
  case less
  from less.prems obtain c cs1 where cs: "cs = c # cs1" by (cases cs) auto
  from less.hyps have IH: "\<And>ds s' . length ds < length cs \<Longrightarrow> scanString ds = Some (s', r)
      \<Longrightarrow> length r < length ds" by blast
  show ?case
  proof (cases "c = 34")
    case True
    with less.prems cs show ?thesis by simp
  next
    case nq: False
    show ?thesis
    proof (cases "c = 92")
      case False
      with nq less.prems cs obtain s' where "scanString cs1 = Some (s', r)"
        by (auto split: if_splits dest: consUnit_Some)
      from IH [OF _ this] cs show ?thesis by simp
    next
      case True
      with less.prems cs obtain e cs2 where cs1: "cs1 = e # cs2"
        by (cases cs1) auto
      show ?thesis
      proof (cases "e = 117")
        case False
        with True less.prems cs cs1 obtain s' where "scanString cs2 = Some (s', r)"
          by (auto split: option.splits dest: consUnit_Some)
        from IH [OF _ this] cs cs1 show ?thesis by simp
      next
        case u: True
        with True less.prems cs cs1 obtain h1 h2 h3 h4 cs3 where
          cs2: "cs2 = h1 # h2 # h3 # h4 # cs3"
          by (auto split: list.splits)
        with u True less.prems cs cs1 obtain s' where "scanString cs3 = Some (s', r)"
          by (auto split: option.splits dest: consUnit_Some)
        from IH [OF _ this] cs cs1 cs2 show ?thesis by simp
      qed
    qed
  qed
qed

lemma dropWhile_shorter: "takeWhile P xs \<noteq> [] \<Longrightarrow> length (dropWhile P xs) < length xs"
proof -
  assume a: "takeWhile P xs \<noteq> []"
  have "length (takeWhile P xs) + length (dropWhile P xs) = length xs"
    by (metis length_append takeWhile_dropWhile_id)
  with a show ?thesis by (cases "takeWhile P xs") auto
qed

lemma scanInt_length: "scanInt s = Some (ip, r) \<Longrightarrow> length r < length s"
  by (auto simp: scanInt_def Let_def dropWhile_shorter split: if_splits)

lemma scanFrac_length: "scanFrac s = Some (fp, r) \<Longrightarrow> length r \<le> length s"
proof -
  assume a: "scanFrac s = Some (fp, r)"
  have "length (dropWhile isDigit (tl s)) \<le> length s"
    using length_dropWhile_le [of isDigit "tl s"] by simp
  with a show ?thesis by (auto simp: scanFrac_def split: if_splits)
qed

lemma scanExp_length: "scanExp s = Some (ex, r) \<Longrightarrow> length r \<le> length s"
proof -
  assume a: "scanExp s = Some (ex, r)"
  have 1: "length (dropWhile isDigit (tl s)) \<le> length s"
    using length_dropWhile_le [of isDigit "tl s"] by simp
  have 2: "length (dropWhile isDigit (tl (tl s))) \<le> length s"
    using length_dropWhile_le [of isDigit "tl (tl s)"] by simp
  from a 1 2 show ?thesis by (auto simp: scanExp_def Let_def split: if_splits)
qed

lemma scanNumber_length:
  assumes "scanNumber s = Some (v, r)"
  shows "length r < length s"
proof -
  from assms obtain ip r2 fp r3 ex where
    1: "scanInt (if s \<noteq> [] \<and> hd s = 45 then tl s else s) = Some (ip, r2)"
    and 2: "scanFrac r2 = Some (fp, r3)" and 3: "scanExp r3 = Some (ex, r)"
    by (auto simp: scanNumber_def Let_def split: option.splits)
  have "length (if s \<noteq> [] \<and> hd s = 45 then tl s else s) \<le> length s" by simp
  with scanInt_length [OF 1] scanFrac_length [OF 2] scanExp_length [OF 3]
  show ?thesis by linarith
qed

text \<open>The white space of JSON: TAB, LF, CR, SP.\<close>

definition isJsonSpace :: "nat \<Rightarrow> bool" where
  "isJsonSpace c = (c = 9 \<or> c = 10 \<or> c = 13 \<or> c = 32)"

definition consToken :: "token \<Rightarrow> token list option \<Rightarrow> token list option" where
  "consToken t x = map_option (Cons t) x"

function tokenize :: "jsstring \<Rightarrow> token list option" where
  "tokenize [] = Some []"
| "tokenize (c # cs) =
    (if isJsonSpace c then tokenize cs
     else if c = 123 then consToken TLBrace (tokenize cs)
     else if c = 125 then consToken TRBrace (tokenize cs)
     else if c = 91 then consToken TLBracket (tokenize cs)
     else if c = 93 then consToken TRBracket (tokenize cs)
     else if c = 58 then consToken TColon (tokenize cs)
     else if c = 44 then consToken TComma (tokenize cs)
     else if c = 34 then
       (case scanString cs of
          None \<Rightarrow> None
        | Some (s, r) \<Rightarrow> consToken (TValue (JStr s)) (tokenize r))
     else if c = 45 \<or> isDigit c then
       (case scanNumber (c # cs) of
          None \<Rightarrow> None
        | Some (v, r) \<Rightarrow> consToken (TValue v) (tokenize r))
     else if startsWith (c # cs) (js ''true'') then
       consToken (TValue (JBool True)) (tokenize (drop 3 cs))
     else if startsWith (c # cs) (js ''false'') then
       consToken (TValue (JBool False)) (tokenize (drop 4 cs))
     else if startsWith (c # cs) (js ''null'') then
       consToken (TValue JNull) (tokenize (drop 3 cs))
     else None)"
  by pat_completeness auto
termination
proof (relation "measure length", goal_cases)
  case (9 c cs x2 x y)
  then show ?case using scanString_length [of cs x y] by simp
next
  case (10 c cs x2 x y)
  then show ?case using scanNumber_length [of "c # cs" x y] by simp
qed simp_all

text \<open>
  The stack machine. A frame is an array being read (its elements so far, last first) or
  an object being read (its members so far, and the key whose value is awaited). The
  mode is what the grammar allows next.
\<close>

datatype frame = FArr "json list" | FObj "(jsstring \<times> json) list"
  | FKey "(jsstring \<times> json) list" jsstring

datatype mode = MValue | MValueOrEnd | MKeyOrEnd | MKey | MColon | MAfter | MDone json

text \<open>A repeated key keeps its place and takes the later value.\<close>

definition putMember :: "jsstring \<Rightarrow> json \<Rightarrow> (jsstring \<times> json) list \<Rightarrow> (jsstring \<times> json) list" where
  "putMember k v ms =
     (if k \<in> fst ` set ms then map (\<lambda>(k', v'). if k' = k then (k', v) else (k', v')) ms
      else ms @ [(k, v)])"

fun pushValue :: "json \<Rightarrow> frame list \<Rightarrow> (frame list \<times> mode) option" where
  "pushValue v [] = Some ([], MDone v)"
| "pushValue v (FArr es # st) = Some (FArr (v # es) # st, MAfter)"
| "pushValue v (FKey ms k # st) = Some (FObj (putMember k v ms) # st, MAfter)"
| "pushValue v (FObj ms # st) = None"

fun closeArray :: "frame list \<Rightarrow> (frame list \<times> mode) option" where
  "closeArray (FArr es # st) = pushValue (JArr (rev es)) st"
| "closeArray _ = None"

fun closeObject :: "frame list \<Rightarrow> (frame list \<times> mode) option" where
  "closeObject (FObj ms # st) = pushValue (JObj ms) st"
| "closeObject _ = None"

fun startKey :: "token \<Rightarrow> frame list \<Rightarrow> (frame list \<times> mode) option" where
  "startKey (TValue (JStr k)) (FObj ms # st) = Some (FKey ms k # st, MColon)"
| "startKey _ _ = None"

fun startValue :: "token \<Rightarrow> frame list \<Rightarrow> (frame list \<times> mode) option" where
  "startValue (TValue v) st = pushValue v st"
| "startValue TLBracket st = Some (FArr [] # st, MValueOrEnd)"
| "startValue TLBrace st = Some (FObj [] # st, MKeyOrEnd)"
| "startValue _ st = None"

fun afterValue :: "token \<Rightarrow> frame list \<Rightarrow> (frame list \<times> mode) option" where
  "afterValue TComma (FArr es # st) = Some (FArr es # st, MValue)"
| "afterValue TComma (FObj ms # st) = Some (FObj ms # st, MKey)"
| "afterValue TRBracket st = closeArray st"
| "afterValue TRBrace st = closeObject st"
| "afterValue _ _ = None"

fun parseStep :: "token \<Rightarrow> frame list \<Rightarrow> mode \<Rightarrow> (frame list \<times> mode) option" where
  "parseStep t st MValue = startValue t st"
| "parseStep t st MValueOrEnd = (if t = TRBracket then closeArray st else startValue t st)"
| "parseStep t st MKeyOrEnd = (if t = TRBrace then closeObject st else startKey t st)"
| "parseStep t st MKey = startKey t st"
| "parseStep t st MColon = (if t = TColon then Some (st, MValue) else None)"
| "parseStep t st MAfter = afterValue t st"
| "parseStep t st (MDone v) = None"

fun parseTokens :: "token list \<Rightarrow> frame list \<Rightarrow> mode \<Rightarrow> json option" where
  "parseTokens [] st m = (case m of MDone v \<Rightarrow> Some v | _ \<Rightarrow> None)"
| "parseTokens (t # ts) st m =
     (case parseStep t st m of None \<Rightarrow> None | Some (st', m') \<Rightarrow> parseTokens ts st' m')"

definition JSON_parse :: "jsstring \<Rightarrow> json option" where
  "JSON_parse text = (case tokenize text of None \<Rightarrow> None | Some ts \<Rightarrow> parseTokens ts [] MValue)"

subsection \<open>JSON.stringify\<close>

definition hexDigit :: "nat \<Rightarrow> nat" where
  "hexDigit d = (if d < 10 then 48 + d else 87 + d)"

definition unicodeEscape :: "nat \<Rightarrow> jsstring" where
  "unicodeEscape c = [92, 117, hexDigit (c div 4096 mod 16), hexDigit (c div 256 mod 16),
                      hexDigit (c div 16 mod 16), hexDigit (c mod 16)]"

definition isHighSurrogate :: "nat \<Rightarrow> bool" where
  "isHighSurrogate c = (55296 \<le> c \<and> c \<le> 56319)"

definition isLowSurrogate :: "nat \<Rightarrow> bool" where
  "isLowSurrogate c = (56320 \<le> c \<and> c \<le> 57343)"

text \<open>
  One code unit inside a quoted string: the short escapes, \<open>\\uXXXX\<close> for the other
  control characters and for a surrogate that stands alone, the unit itself otherwise.
\<close>

definition quoteUnit :: "nat \<Rightarrow> jsstring" where
  "quoteUnit c =
    (if c = 8 then [92, 98] else if c = 9 then [92, 116] else if c = 10 then [92, 110]
     else if c = 12 then [92, 102] else if c = 13 then [92, 114]
     else if c = 34 then [92, 34] else if c = 92 then [92, 92]
     else if c < 32 \<or> isHighSurrogate c \<or> isLowSurrogate c then unicodeEscape c
     else [c])"

fun quoteUnits :: "jsstring \<Rightarrow> jsstring" where
  "quoteUnits [] = []"
| "quoteUnits [c] = quoteUnit c"
| "quoteUnits (c # d # cs) =
    (if isHighSurrogate c \<and> isLowSurrogate d then c # d # quoteUnits cs
     else quoteUnit c @ quoteUnits (d # cs))"

definition quoteJSONString :: "jsstring \<Rightarrow> jsstring" where
  "quoteJSONString s = [34] @ quoteUnits s @ [34]"

text \<open>\<open>JSON.stringify(v)\<close>. A number that is not finite is written \<open>null\<close>.\<close>

fun JSON_stringify :: "(int \<Rightarrow> int \<Rightarrow> jsstring) \<Rightarrow> json \<Rightarrow> jsstring" where
  "JSON_stringify nts JNull = js ''null''"
| "JSON_stringify nts (JBool b) = (if b then js ''true'' else js ''false'')"
| "JSON_stringify nts (JNum m e) = (if numOverflows m e then js ''null'' else nts m e)"
| "JSON_stringify nts (JStr s) = quoteJSONString s"
| "JSON_stringify nts (JArr es) =
     js ''['' @ joinWith (js '','') (map (JSON_stringify nts) es) @ js '']''"
| "JSON_stringify nts (JObj ms) =
     js ''{'' @ joinWith (js '','')
        (map (\<lambda>kv. quoteJSONString (fst kv) @ js '':'' @ JSON_stringify nts (snd kv)) ms)
       @ js ''}''"

subsection \<open>Buffer.from(s).toString('base64')\<close>

text \<open>
  The UTF-8 bytes of a string (a surrogate pair is one code point of four bytes, a
  surrogate that stands alone becomes U+FFFD), and their base64 text.
\<close>

fun utf8 :: "jsstring \<Rightarrow> nat list" where
  "utf8 [] = []"
| "utf8 (c # cs) =
    (if c < 128 then c # utf8 cs
     else if c < 2048 then (192 + c div 64) # (128 + c mod 64) # utf8 cs
     else if isHighSurrogate c \<and> cs \<noteq> [] \<and> isLowSurrogate (hd cs) then
       (let p = 65536 + (c - 55296) * 1024 + (hd cs - 56320) in
        (240 + p div 262144) # (128 + p div 4096 mod 64) # (128 + p div 64 mod 64)
          # (128 + p mod 64) # utf8 (tl cs))
     else if isHighSurrogate c \<or> isLowSurrogate c then 239 # 191 # 189 # utf8 cs
     else (224 + c div 4096) # (128 + c div 64 mod 64) # (128 + c mod 64) # utf8 cs)"

definition base64Digit :: "nat \<Rightarrow> nat" where
  "base64Digit n = (if n < 26 then 65 + n else if n < 52 then 71 + n
                    else if n < 62 then n - 4 else if n = 62 then 43 else 47)"

fun base64 :: "nat list \<Rightarrow> jsstring" where
  "base64 [] = []"
| "base64 [a] = [base64Digit (a div 4), base64Digit (a mod 4 * 16), 61, 61]"
| "base64 [a, b] = [base64Digit (a div 4), base64Digit (a mod 4 * 16 + b div 16),
                    base64Digit (b mod 16 * 4), 61]"
| "base64 (a # b # c # bs) =
     base64Digit (a div 4) # base64Digit (a mod 4 * 16 + b div 16)
       # base64Digit (b mod 16 * 4 + c div 64) # base64Digit (c mod 64) # base64 bs"

subsection \<open>Typed errors\<close>

datatype error_class = PlainError | TypeError | SyntaxError | DOMException

text \<open>
  What a \<open>catch\<close> receives: an \<open>Error\<close> object of some class with its \<open>name\<close> and
  \<open>message\<close>, or a value that is no \<open>Error\<close>, given by its \<open>String(...)\<close> text.
\<close>

datatype thrown = ErrorObject error_class jsstring jsstring | NonError jsstring

text \<open>
  The cause stored in an error: the vendor's error object parsed from the body, the body
  text, the object \<open>{ responseSize, limit }\<close> of the size check, or what was caught.
\<close>

datatype cause = ParsedBody json | BodyText jsstring | SizeDetails int int | Thrown thrown

text \<open>
  Modelled from the spec: the error type \<open>McpError\<close> and its factories
  \<open>createAuthInvalidError\<close>, \<open>createApiError\<close> and \<open>createUnexpectedError\<close> belong to
  error.util, which is not among the sources. The spec (section 3) gives a typed error
  a kind, one of AuthMissing, AuthInvalid, ApiError and UnexpectedError, a message, an
  optional HTTP status and an optional cause. Each factory sets the kind it is named
  after and stores what the caller passes; \<open>createAuthInvalidError\<close> and
  \<open>createUnexpectedError\<close> are passed no status.
\<close>

datatype ErrorKind = AuthMissing | AuthInvalid | ApiError | UnexpectedError

record McpError =
  kind :: ErrorKind
  message :: jsstring
  httpStatus :: "nat option"
  cause :: "cause option"

definition createAuthInvalidError :: "jsstring \<Rightarrow> cause option \<Rightarrow> McpError" where
  "createAuthInvalidError msg c =
     \<lparr> kind = AuthInvalid, message = msg, httpStatus = None, cause = c \<rparr>"

definition createApiError :: "jsstring \<Rightarrow> nat \<Rightarrow> cause \<Rightarrow> McpError" where
  "createApiError msg st c =
     \<lparr> kind = ApiError, message = msg, httpStatus = Some st, cause = Some c \<rparr>"

definition createUnexpectedError :: "jsstring \<Rightarrow> cause \<Rightarrow> McpError" where
  "createUnexpectedError msg c =
     \<lparr> kind = UnexpectedError, message = msg, httpStatus = None, cause = Some c \<rparr>"

subsection \<open>Credentials\<close>

text \<open>
  The interface \<open>AtlassianCredentials\<close>: every field is optional; \<open>None\<close> is a field
  that is absent (or holds \<open>undefined\<close>).
\<close>

record AtlassianCredentials =
  oauthToken :: "jsstring option"
  useOAuth :: "bool option"
  siteName :: "jsstring option"
  userEmail :: "jsstring option"
  apiToken :: "jsstring option"
  bitbucketUsername :: "jsstring option"
  bitbucketAppPassword :: "jsstring option"
  useBitbucketAuth :: "bool option"

definition noCredentials :: AtlassianCredentials where
  "noCredentials = \<lparr> oauthToken = None, useOAuth = None, siteName = None, userEmail = None,
     apiToken = None, bitbucketUsername = None, bitbucketAppPassword = None,
     useBitbucketAuth = None \<rparr>"

text \<open>
  \<open>getAtlassianCredentials\<close>. The configuration (\<open>config.get\<close> of config.util, which is
  not among the sources) is the parameter \<open>cfg\<close>: the value stored under a key, if any.
\<close>

definition getAtlassianCredentials :: "(jsstring \<Rightarrow> jsstring option) \<Rightarrow> AtlassianCredentials option" where
  "getAtlassianCredentials cfg =
    (let oauth = js_or (cfg (js ''BITBUCKET_ACCESS_TOKEN'')) (cfg (js ''BITBUCKET_OAUTH_TOKEN'')) in
     if truthy_str oauth then
       Some (noCredentials \<lparr> oauthToken := oauth, useOAuth := Some True \<rparr>)
     else
       let site = cfg (js ''ATLASSIAN_SITE_NAME'');
           email = cfg (js ''ATLASSIAN_USER_EMAIL'');
           token = cfg (js ''ATLASSIAN_API_TOKEN'') in
       if truthy_str email \<and> truthy_str token then
         Some (noCredentials \<lparr> siteName := site, userEmail := email, apiToken := token,
                 useBitbucketAuth := Some False \<rparr>)
       else
         let username = cfg (js ''ATLASSIAN_BITBUCKET_USERNAME'');
             password = cfg (js ''ATLASSIAN_BITBUCKET_APP_PASSWORD'') in
         if truthy_str username \<and> truthy_str password then
           Some (noCredentials \<lparr> bitbucketUsername := username, bitbucketAppPassword := password,
                   useBitbucketAuth := Some True \<rparr>)
         else None)"

text \<open>
  The three credential variants, and the variant the consumer (\<open>fetchAtlassian\<close>, the
  chain \<open>if (credentials.useOAuth) ... else if (credentials.useBitbucketAuth) ... else\<close>)
  selects from the two flags alone.
\<close>

datatype variant = OAuthToken | BasicEmailToken | BasicUsernamePassword

definition variantOfFlags :: "AtlassianCredentials \<Rightarrow> variant" where
  "variantOfFlags c =
     (if useOAuth c = Some True then OAuthToken
      else if useBitbucketAuth c = Some True then BasicUsernamePassword
      else BasicEmailToken)"

text \<open>The variants some field of which is populated.\<close>

definition populated :: "AtlassianCredentials \<Rightarrow> variant set" where
  "populated c =
     (if oauthToken c \<noteq> None then {OAuthToken} else {})
     \<union> (if siteName c \<noteq> None \<or> userEmail c \<noteq> None \<or> apiToken c \<noteq> None
        then {BasicEmailToken} else {})
     \<union> (if bitbucketUsername c \<noteq> None \<or> bitbucketAppPassword c \<noteq> None
        then {BasicUsernamePassword} else {})"

subsection \<open>Building the request\<close>

datatype http_method = GET | POST | PUT | DELETE

text \<open>
  The interface \<open>RequestOptions\<close>. The body is typed \<open>unknown\<close>; the model takes the
  values of JSON, a string being \<open>JStr\<close>. A JavaScript object used as a dictionary
  (\<open>Record<string, string>\<close>) is a map. The field \<open>method\<close> is written \<open>method'\<close>.
\<close>

record RequestOptions =
  method' :: "http_method option"
  headers :: "(jsstring \<rightharpoonup> jsstring) option"
  body :: "json option"
  timeout :: "int option"

text \<open>
  What is handed to \<open>fetch\<close>: the URL and the \<open>RequestInit\<close>. The body is declared
  \<open>string | undefined\<close>, but the casts \<open>options.body as string\<close> are not checked at run
  time, so it is whatever value the code puts there.
\<close>

record request =
  url :: jsstring
  reqMethod :: http_method
  reqHeaders :: "jsstring \<rightharpoonup> jsstring"
  reqBody :: "json option"

definition basicAuth :: "jsstring \<Rightarrow> jsstring \<Rightarrow> jsstring" where
  "basicAuth user secret = js ''Basic '' @ base64 (utf8 (user @ js '':'' @ secret))"

text \<open>The \<open>Authorization\<close> header, or the error thrown for a credential that lacks a field.\<close>

definition authHeader :: "AtlassianCredentials \<Rightarrow> McpError + jsstring" where
  "authHeader c =
    (if useOAuth c = Some True then
       (case oauthToken c of
          Some t \<Rightarrow>
            if t \<noteq> [] then Inr (js ''Bearer '' @ t)
            else Inl (createAuthInvalidError (js ''Missing OAuth token'') None)
        | None \<Rightarrow> Inl (createAuthInvalidError (js ''Missing OAuth token'') None))
     else if useBitbucketAuth c = Some True then
       (case (bitbucketUsername c, bitbucketAppPassword c) of
          (Some u, Some p) \<Rightarrow>
            if u \<noteq> [] \<and> p \<noteq> [] then Inr (basicAuth u p)
            else Inl (createAuthInvalidError
                       (js ''Missing Bitbucket username or app password'') None)
        | _ \<Rightarrow> Inl (createAuthInvalidError
                       (js ''Missing Bitbucket username or app password'') None))
     else
       (case (userEmail c, apiToken c) of
          (Some u, Some p) \<Rightarrow>
            if u \<noteq> [] \<and> p \<noteq> [] then Inr (basicAuth u p)
            else Inl (createAuthInvalidError (js ''Missing Atlassian credentials'') None)
        | _ \<Rightarrow> Inl (createAuthInvalidError (js ''Missing Atlassian credentials'') None)))"

definition callerHeaders :: "RequestOptions \<Rightarrow> (jsstring \<rightharpoonup> jsstring)" where
  "callerHeaders options = (case headers options of None \<Rightarrow> Map.empty | Some h \<Rightarrow> h)"

text \<open>
  The object \<open>{ Authorization, 'Content-Type', Accept, ...options.headers }\<close>: the
  caller's entries are spread last and replace the three entries before them.
\<close>

definition buildHeaders :: "jsstring \<Rightarrow> RequestOptions \<Rightarrow> (jsstring \<rightharpoonup> jsstring)" where
  "buildHeaders auth options =
    (let defaultContentType =
           orDefault (callerHeaders options (js ''Content-Type'')) (js ''application/json'')
     in [js ''Authorization'' \<mapsto> auth,
         js ''Content-Type'' \<mapsto> defaultContentType,
         js ''Accept'' \<mapsto> js ''application/json''] ++ callerHeaders options)"

text \<open>
  The request body (\<open>requestBody\<close>). A falsy body is not sent; a string is sent as it
  is; another value is sent as it is when the content type contains
  \<open>multipart/form-data\<close> or is \<open>application/x-www-form-urlencoded\<close>, and as its JSON
  text otherwise.
\<close>

definition encodeBody ::
  "(int \<Rightarrow> int \<Rightarrow> jsstring) \<Rightarrow> (jsstring \<rightharpoonup> jsstring) \<Rightarrow> json option \<Rightarrow> json option" where
  "encodeBody nts hs b =
    (case b of
       None \<Rightarrow> None
     | Some v \<Rightarrow>
        if \<not> truthy v then None
        else (case v of
           JStr s \<Rightarrow> Some (JStr s)
         | _ \<Rightarrow>
            (case hs (js ''Content-Type'') of
               None \<Rightarrow> Some (JStr (JSON_stringify nts v))
             | Some ct \<Rightarrow>
                if includesStr ct (js ''multipart/form-data'') then Some v
                else if ct = js ''application/x-www-form-urlencoded'' then Some v
                else Some (JStr (JSON_stringify nts v)))))"

text \<open>The part of \<open>fetchAtlassian\<close> before the timer is armed.\<close>

definition buildRequest ::
  "(int \<Rightarrow> int \<Rightarrow> jsstring) \<Rightarrow> AtlassianCredentials \<Rightarrow> jsstring \<Rightarrow> RequestOptions
    \<Rightarrow> McpError + request" where
  "buildRequest nts credentials path options =
    (case authHeader credentials of
       Inl e \<Rightarrow> Inl e
     | Inr auth \<Rightarrow>
        (let normalizedPath = (if startsWith path (js ''/'') then path else js ''/'' @ path);
             hs = buildHeaders auth options
         in Inr \<lparr> url = js ''https://api.bitbucket.org'' @ normalizedPath,
                  reqMethod = (case method' options of None \<Rightarrow> GET | Some m \<Rightarrow> m),
                  reqHeaders = hs,
                  reqBody = encodeBody nts hs (body options) \<rparr>))"

subsection \<open>The response\<close>

text \<open>
  A response as \<open>fetchAtlassian\<close> observes it: \<open>response.status\<close>,
  \<open>response.statusText\<close>, \<open>response.headers.get\<close> (at the lower-case names the code
  uses) and the text that \<open>response.text()\<close> resolves to; reading the body is
  taken to succeed.
\<close>

record response =
  status :: nat
  statusText :: jsstring
  headersGet :: "jsstring \<rightharpoonup> jsstring"
  bodyText :: jsstring

text \<open>\<open>response.ok\<close>: the status is in the range 200 to 299.\<close>

definition ok :: "response \<Rightarrow> bool" where
  "ok r = (200 \<le> status r \<and> status r \<le> 299)"

text \<open>
  How the call to \<open>fetch\<close> ends: with a response; with the timer firing first, whose
  callback aborts the request, so that \<open>fetch\<close> rejects with an AbortError (of the
  message given); or with another rejection.
\<close>

datatype fetch_outcome = Responded response | TimedOut jsstring | Rejected thrown

text \<open>
  What the function takes from its environment: the runtime's text of a number, the
  default timeout in milliseconds (\<open>config.getNumber('ATLASSIAN_REQUEST_TIMEOUT',
  NETWORK_TIMEOUTS.DEFAULT_REQUEST_TIMEOUT)\<close>), the constant
  \<open>DATA_LIMITS.MAX_RESPONSE_SIZE\<close>, a number of bytes taken to be an integer below
  \<open>2^53\<close> (config.util and constants.util are not among the sources), and the network.
\<close>

record runtime =
  Number_toString :: "int \<Rightarrow> int \<Rightarrow> jsstring"
  defaultTimeout :: int
  MAX_RESPONSE_SIZE :: int
  fetch :: "request \<Rightarrow> fetch_outcome"

text \<open>The effects of a call, in order: the timer and the reads of the response body.\<close>

datatype event = SetTimeout int | ClearTimeout | TimerFired | ReadBody

text \<open>
  The size check. \<open>exceedsLimit\<close> is the size read from \<open>content-length\<close> when the
  header is present, not empty, and its number is above the limit.
  \<open>Math.round(n / (1024 * 1024))\<close> is computed on the exact integer.
\<close>

definition exceedsLimit :: "int \<Rightarrow> response \<Rightarrow> int option" where
  "exceedsLimit limit r =
    (case headersGet r (js ''content-length'') of
       None \<Rightarrow> None
     | Some contentLength \<Rightarrow>
        if contentLength = [] then None
        else (case parseInt contentLength of
                None \<Rightarrow> None
              | Some responseSize \<Rightarrow> if responseSize > limit then Some responseSize else None))"

definition mathRoundMB :: "int \<Rightarrow> int" where
  "mathRoundMB n = (n + 524288) div 1048576"

definition sizeError :: "(int \<Rightarrow> int \<Rightarrow> jsstring) \<Rightarrow> int \<Rightarrow> int \<Rightarrow> McpError" where
  "sizeError nts limit responseSize =
     createApiError
       (js ''Response size ('' @ nts (mathRoundMB responseSize) 0
          @ js ''MB) exceeds maximum limit of '' @ nts (mathRoundMB limit) 0 @ js ''MB'')
       413 (SizeDetails responseSize limit)"

text \<open>
  The vendor's error shapes. \<open>nestedMessage\<close> is \<open>parsedError.error &&
  parsedError.error.message\<close>, with the object it is read from; \<open>firstError\<close> is
  \<open>parsedError.errors[0]\<close> when \<open>errors\<close> is a non-empty array.
\<close>

fun nestedMessage :: "json option \<Rightarrow> (json \<times> json) option" where
  "nestedMessage None = None"
| "nestedMessage (Some e) =
    (if truthy e then
       (case getProp e (js ''message'') of
          None \<Rightarrow> None
        | Some m \<Rightarrow> if truthy m then Some (e, m) else None)
     else None)"

fun firstError :: "json option \<Rightarrow> json option" where
  "firstError (Some (JArr (a # as))) = Some a"
| "firstError _ = None"

definition withDetail :: "(int \<Rightarrow> int \<Rightarrow> jsstring) \<Rightarrow> json \<Rightarrow> json \<Rightarrow> jsstring" where
  "withDetail nts e m =
    (case getProp e (js ''detail'') of
       None \<Rightarrow> toString nts m
     | Some d \<Rightarrow> if truthy d then toString nts m @ js '' Detail: '' @ toString nts d
                  else toString nts m)"

text \<open>Reading \<open>title\<close> of \<open>null\<close> throws; the \<open>catch\<close> leaves the message as it was.\<close>

definition titleOf :: "(int \<Rightarrow> int \<Rightarrow> jsstring) \<Rightarrow> json \<Rightarrow> (jsstring \<times> json) option" where
  "titleOf nts atlassianError =
    (if atlassianError = JNull then None
     else (case getProp atlassianError (js ''title'') of
             None \<Rightarrow> None
           | Some t \<Rightarrow> if truthy t then Some (toString nts t, atlassianError) else None))"

text \<open>
  The \<open>if\<close> chain over the parsed error body: the text of \<open>errorMessage\<close> and
  \<open>parsedBitbucketError\<close> when a branch assigns them, \<open>None\<close> when none does.
\<close>

definition extractVendorError ::
  "(int \<Rightarrow> int \<Rightarrow> jsstring) \<Rightarrow> json \<Rightarrow> (jsstring \<times> json) option" where
  "extractVendorError nts parsedError =
    (if parsedError = JNull then None
     else
       (let nested = nestedMessage (getProp parsedError (js ''error'')) in
        if getProp parsedError (js ''type'') = Some (JStr (js ''error'')) \<and> nested \<noteq> None then
          (case nested of None \<Rightarrow> None | Some (e, m) \<Rightarrow> Some (withDetail nts e m, e))
        else if nested \<noteq> None then
          (case nested of None \<Rightarrow> None | Some (e, m) \<Rightarrow> Some (toString nts m, e))
        else if firstError (getProp parsedError (js ''errors'')) \<noteq> None then
          (case firstError (getProp parsedError (js ''errors'')) of
             None \<Rightarrow> None | Some a \<Rightarrow> titleOf nts a)
        else
          (case getProp parsedError (js ''message'') of
             None \<Rightarrow> None
           | Some m \<Rightarrow> if truthy m then Some (toString nts m, parsedError) else None)))"

text \<open>
  \<open>errorMessage\<close> and \<open>originalErrorForMcp\<close> of a response that is not ok. The
  fallback is the status line and the body text.
\<close>

definition parseErrorBody :: "(int \<Rightarrow> int \<Rightarrow> jsstring) \<Rightarrow> response \<Rightarrow> jsstring \<times> cause" where
  "parseErrorBody nts r =
    (let errorText = bodyText r;
         fallback = (show_nat (status r) @ js '' '' @ statusText r, BodyText errorText)
     in if errorText \<noteq> [] \<and> (startsWith errorText (js ''{'') \<or> startsWith errorText (js ''['')) then
          (case JSON_parse errorText of
             None \<Rightarrow> fallback
           | Some parsedError \<Rightarrow>
              (case extractVendorError nts parsedError of
                 None \<Rightarrow> fallback
               | Some (errorMessage, parsedBitbucketError) \<Rightarrow>
                   (errorMessage, ParsedBody parsedBitbucketError)))
        else fallback)"

text \<open>The error thrown for a status, given the message and the cause.\<close>

definition classifyStatus :: "nat \<Rightarrow> jsstring \<Rightarrow> cause \<Rightarrow> McpError" where
  "classifyStatus st errorMessage originalError =
    (if st = 401 then
       createAuthInvalidError (js ''Bitbucket API: Authentication failed - '' @ errorMessage)
         (Some originalError)
     else if st = 403 then
       createApiError (js ''Bitbucket API: Permission denied - '' @ errorMessage) 403 originalError
     else if st = 404 then
       createApiError (js ''Bitbucket API: Resource not found - '' @ errorMessage) 404 originalError
     else if st = 429 then
       createApiError (js ''Bitbucket API: Rate limit exceeded - '' @ errorMessage) 429 originalError
     else if st \<ge> 500 then
       createApiError (js ''Bitbucket API: Service error - '' @ errorMessage) st originalError
     else
       createApiError (js ''Bitbucket API Error: '' @ errorMessage) st originalError)"

definition httpError :: "(int \<Rightarrow> int \<Rightarrow> jsstring) \<Rightarrow> response \<Rightarrow> McpError" where
  "httpError nts r =
     (case parseErrorBody nts r of (errorMessage, originalError) \<Rightarrow>
        classifyStatus (status r) errorMessage originalError)"

text \<open>
  Decoding the body of a response that is ok. The empty object \<open>{}\<close> is \<open>JObj []\<close>; a
  text is returned as the string it is.
\<close>

definition decodeBody :: "response \<Rightarrow> json" where
  "decodeBody r =
    (let contentType = orDefault (headersGet r (js ''content-type'')) [] in
     if includesStr contentType (js ''text/plain'') then JStr (bodyText r)
     else if bodyText r = [] \<or> trim (bodyText r) = [] then JObj []
     else (case JSON_parse (bodyText r) of
             Some responseJson \<Rightarrow> responseJson
           | None \<Rightarrow> JStr (bodyText r)))"

text \<open>
  The \<open>try\<close> block once \<open>fetch\<close> has resolved. An \<open>McpError\<close> thrown inside it passes
  through the \<open>catch\<close>, which clears the timer once more and throws it again.
\<close>

definition handleResponse :: "runtime \<Rightarrow> response \<Rightarrow> (McpError + json) \<times> event list" where
  "handleResponse rt r =
    (case exceedsLimit (MAX_RESPONSE_SIZE rt) r of
       Some responseSize \<Rightarrow>
         (Inl (sizeError (Number_toString rt) (MAX_RESPONSE_SIZE rt) responseSize),
          [ClearTimeout, ClearTimeout])
     | None \<Rightarrow>
        if \<not> ok r then
          (Inl (httpError (Number_toString rt) r), [ClearTimeout, ReadBody, ClearTimeout])
        else (Inr (decodeBody r), [ClearTimeout, ReadBody]))"

text \<open>What \<open>fetch\<close> rejects with when its signal is aborted: a DOMException named AbortError.\<close>

definition abortError :: "jsstring \<Rightarrow> thrown" where
  "abortError msg = ErrorObject DOMException (js ''AbortError'') msg"

fun thrownName :: "thrown \<Rightarrow> jsstring option" where
  "thrownName (ErrorObject c n m) = Some n"
| "thrownName (NonError s) = None"

fun thrownClass :: "thrown \<Rightarrow> error_class option" where
  "thrownClass (ErrorObject c n m) = Some c"
| "thrownClass (NonError s) = None"

fun thrownText :: "thrown \<Rightarrow> jsstring" where
  "thrownText (ErrorObject c n m) = m"
| "thrownText (NonError s) = s"

text \<open>
  The \<open>catch\<close> block for what \<open>fetch\<close> rejects with. The timeout is printed in seconds,
  \<open>timeoutMs / 1000\<close>.
\<close>

definition handleFailure :: "(int \<Rightarrow> int \<Rightarrow> jsstring) \<Rightarrow> int \<Rightarrow> thrown \<Rightarrow> McpError + json" where
  "handleFailure nts timeoutMs error =
    (if thrownName error = Some (js ''AbortError'') then
       Inl (createApiError
             (js ''Request timeout: Bitbucket API did not respond within ''
                @ nts timeoutMs (- 3) @ js '' seconds'')
             408 (Thrown error))
     else if thrownClass error = Some TypeError then
       Inl (createApiError
             (js ''Network error while calling Bitbucket API: ''
                @ orDefault (Some (thrownText error)) (js ''Network error occurred''))
             500 (Thrown error))
     else if thrownClass error = Some SyntaxError then
       (if includesStr (thrownText error) (js ''Unexpected end of JSON input'') then Inr (JObj [])
        else Inl (createApiError
                   (js ''Invalid response format from Bitbucket API: '' @ thrownText error)
                   500 (Thrown error)))
     else
       Inl (createUnexpectedError
             (js ''Unexpected error while calling Bitbucket API: '' @ thrownText error)
             (Thrown error)))"

subsection \<open>fetchAtlassian\<close>

text \<open>\<open>timeoutMs\<close>: \<open>options.timeout ?? defaultTimeout\<close>.\<close>

definition timeoutOf :: "runtime \<Rightarrow> RequestOptions \<Rightarrow> int" where
  "timeoutOf rt options = (case timeout options of None \<Rightarrow> defaultTimeout rt | Some t \<Rightarrow> t)"

text \<open>The result, an error thrown or the value returned, and the effects in order.\<close>

definition fetchAtlassian ::
  "runtime \<Rightarrow> AtlassianCredentials \<Rightarrow> jsstring \<Rightarrow> RequestOptions
    \<Rightarrow> (McpError + json) \<times> event list" where
  "fetchAtlassian rt credentials path options =
    (case buildRequest (Number_toString rt) credentials path options of
       Inl e \<Rightarrow> (Inl e, [])
     | Inr req \<Rightarrow>
        (let timeoutMs = timeoutOf rt options in
         case fetch rt req of
           Responded r \<Rightarrow>
             (case handleResponse rt r of (res, evs) \<Rightarrow> (res, SetTimeout timeoutMs # evs))
         | TimedOut msg \<Rightarrow>
             (handleFailure (Number_toString rt) timeoutMs (abortError msg),
              [SetTimeout timeoutMs, TimerFired, ClearTimeout])
         | Rejected error \<Rightarrow>
             (handleFailure (Number_toString rt) timeoutMs error,
              [SetTimeout timeoutMs, ClearTimeout])))"

text \<open>Whether a timer is armed after a sequence of effects, given whether one was before.\<close>

fun timerArmed :: "bool \<Rightarrow> event list \<Rightarrow> bool" where
  "timerArmed a [] = a"
| "timerArmed a (SetTimeout ms # es) = timerArmed True es"
| "timerArmed a (ClearTimeout # es) = timerArmed False es"
| "timerArmed a (TimerFired # es) = timerArmed False es"
| "timerArmed a (ReadBody # es) = timerArmed a es"

subsection \<open>An environment for concrete runs\<close>

text \<open>
  The text of \<open>m * 10^e\<close> in plain decimal notation. It is what the runtime prints for
  the numbers of the runs below (integers and short decimal fractions of moderate size).
\<close>

definition plainDecimal :: "int \<Rightarrow> int \<Rightarrow> jsstring" where
  "plainDecimal m e =
    (let sign = (if m < 0 then js ''-'' else []);
         a = nat \<bar>m\<bar>
     in if 0 \<le> e then sign @ show_nat (a * 10 ^ nat e)
        else
          (let q = 10 ^ nat (- e);
               frac = show_nat (q + a mod q)
           in if a mod q = 0 then (if a = 0 then js ''0'' else sign @ show_nat (a div q))
              else sign @ show_nat (a div q) @ js ''.''
                     @ rev (dropWhile (\<lambda>c. c = 48) (rev (tl frac)))))"

text \<open>
  A runtime with a timeout of 30 seconds and a limit of 10 MB, over a given network.
\<close>

definition exampleRuntime :: "(request \<Rightarrow> fetch_outcome) \<Rightarrow> runtime" where
  "exampleRuntime net = \<lparr> Number_toString = plainDecimal, defaultTimeout = 30000,
      MAX_RESPONSE_SIZE = 10485760, fetch = net \<rparr>"

text \<open>A response given by its parts, and the network that answers every request with it.\<close>

definition mkResponse :: "nat \<Rightarrow> jsstring \<Rightarrow> (jsstring \<times> jsstring) list \<Rightarrow> jsstring \<Rightarrow> response" where
  "mkResponse st stText hs b =
     \<lparr> status = st, statusText = stText, headersGet = map_of hs, bodyText = b \<rparr>"

definition answering :: "response \<Rightarrow> request \<Rightarrow> fetch_outcome" where
  "answering r req = Responded r"

text \<open>OAuth credentials, and request options that set nothing.\<close>

definition oauthCreds :: AtlassianCredentials where
  "oauthCreds = noCredentials \<lparr> oauthToken := Some (js ''tok''), useOAuth := Some True \<rparr>"

definition noOptions :: RequestOptions where
  "noOptions = \<lparr> method' = None, headers = None, body = None, timeout = None \<rparr>"

section \<open>Properties\<close>

subsection \<open>Credential resolution\<close>

lemma truthy_str_iff: "truthy_str a \<longleftrightarrow> (\<exists>s. a = Some s \<and> s \<noteq> [])"
  by (cases a) auto

text \<open>
  C6. Precedence of credential resolution. When an OAuth token is configured under
  either key, the result is the OAuth variant, holding the first non-empty token and
  nothing else, whatever else is configured. When no OAuth token and no complete
  email/API-token pair is configured but the username/app-password pair is, the result is
  the username/password variant. When no variant is complete, the result is null.
\<close>

theorem credential_precedence:
  "(truthy_str (cfg (js ''BITBUCKET_ACCESS_TOKEN'')) \<or> truthy_str (cfg (js ''BITBUCKET_OAUTH_TOKEN'')) \<longrightarrow>
      getAtlassianCredentials cfg =
        Some (noCredentials
          \<lparr> oauthToken := (if truthy_str (cfg (js ''BITBUCKET_ACCESS_TOKEN''))
                            then cfg (js ''BITBUCKET_ACCESS_TOKEN'')
                            else cfg (js ''BITBUCKET_OAUTH_TOKEN'')),
            useOAuth := Some True \<rparr>))
   \<and> (\<not> truthy_str (cfg (js ''BITBUCKET_ACCESS_TOKEN''))
      \<and> \<not> truthy_str (cfg (js ''BITBUCKET_OAUTH_TOKEN''))
      \<and> \<not> (truthy_str (cfg (js ''ATLASSIAN_USER_EMAIL'')) \<and> truthy_str (cfg (js ''ATLASSIAN_API_TOKEN'')))
      \<and> truthy_str (cfg (js ''ATLASSIAN_BITBUCKET_USERNAME''))
      \<and> truthy_str (cfg (js ''ATLASSIAN_BITBUCKET_APP_PASSWORD'')) \<longrightarrow>
      getAtlassianCredentials cfg =
        Some (noCredentials
          \<lparr> bitbucketUsername := cfg (js ''ATLASSIAN_BITBUCKET_USERNAME''),
            bitbucketAppPassword := cfg (js ''ATLASSIAN_BITBUCKET_APP_PASSWORD''),
            useBitbucketAuth := Some True \<rparr>))
   \<and> (\<not> truthy_str (cfg (js ''BITBUCKET_ACCESS_TOKEN''))
      \<and> \<not> truthy_str (cfg (js ''BITBUCKET_OAUTH_TOKEN''))
      \<and> \<not> (truthy_str (cfg (js ''ATLASSIAN_USER_EMAIL'')) \<and> truthy_str (cfg (js ''ATLASSIAN_API_TOKEN'')))
      \<and> \<not> (truthy_str (cfg (js ''ATLASSIAN_BITBUCKET_USERNAME''))
           \<and> truthy_str (cfg (js ''ATLASSIAN_BITBUCKET_APP_PASSWORD''))) \<longrightarrow>
      getAtlassianCredentials cfg = None)"
  by (simp add: getAtlassianCredentials_def js_or_def Let_def)

text \<open>
  Three configurations: an OAuth token together with a complete email/API-token pair;
  the username/app-password pair alone; nothing at all.
\<close>

theorem credential_precedence_witness:
  "getAtlassianCredentials (map_of
      [(js ''BITBUCKET_OAUTH_TOKEN'', js ''tok''),
       (js ''ATLASSIAN_USER_EMAIL'', js ''a@b.c''),
       (js ''ATLASSIAN_API_TOKEN'', js ''secret'')])
     = Some (noCredentials \<lparr> oauthToken := Some (js ''tok''), useOAuth := Some True \<rparr>)
   \<and> getAtlassianCredentials (map_of
      [(js ''ATLASSIAN_BITBUCKET_USERNAME'', js ''bob''),
       (js ''ATLASSIAN_BITBUCKET_APP_PASSWORD'', js ''pw'')])
     = Some (noCredentials \<lparr> bitbucketUsername := Some (js ''bob''),
          bitbucketAppPassword := Some (js ''pw''), useBitbucketAuth := Some True \<rparr>)
   \<and> getAtlassianCredentials (map_of []) = None"
  using credential_precedence [of "map_of
      [(js ''BITBUCKET_OAUTH_TOKEN'', js ''tok''),
       (js ''ATLASSIAN_USER_EMAIL'', js ''a@b.c''),
       (js ''ATLASSIAN_API_TOKEN'', js ''secret'')]"]
    credential_precedence [of "map_of
      [(js ''ATLASSIAN_BITBUCKET_USERNAME'', js ''bob''),
       (js ''ATLASSIAN_BITBUCKET_APP_PASSWORD'', js ''pw'')]"]
    credential_precedence [of "map_of []"]
  by (simp add: js_def)

text \<open>
  C9. A value returned by credential resolution populates the fields of exactly one
  variant, and that variant is the one its flags \<open>useOAuth\<close> and \<open>useBitbucketAuth\<close>
  select; one of the two flags is always set, and the fields the variant requires are
  not empty.
\<close>

theorem credentials_one_variant:
  assumes "getAtlassianCredentials cfg = Some c"
  shows "populated c = {variantOfFlags c}
     \<and> (useOAuth c \<noteq> None \<or> useBitbucketAuth c \<noteq> None)
     \<and> (case variantOfFlags c of
          OAuthToken \<Rightarrow> truthy_str (oauthToken c)
        | BasicEmailToken \<Rightarrow> truthy_str (userEmail c) \<and> truthy_str (apiToken c)
        | BasicUsernamePassword \<Rightarrow>
            truthy_str (bitbucketUsername c) \<and> truthy_str (bitbucketAppPassword c))"
proof -
  let ?o = "js_or (cfg (js ''BITBUCKET_ACCESS_TOKEN'')) (cfg (js ''BITBUCKET_OAUTH_TOKEN''))"
  let ?e = "cfg (js ''ATLASSIAN_USER_EMAIL'')"
  let ?t = "cfg (js ''ATLASSIAN_API_TOKEN'')"
  let ?u = "cfg (js ''ATLASSIAN_BITBUCKET_USERNAME'')"
  let ?p = "cfg (js ''ATLASSIAN_BITBUCKET_APP_PASSWORD'')"
  consider (oauth) "truthy_str ?o"
    | (email) "\<not> truthy_str ?o" "truthy_str ?e" "truthy_str ?t"
    | (user) "\<not> truthy_str ?o" "\<not> (truthy_str ?e \<and> truthy_str ?t)" "truthy_str ?u" "truthy_str ?p"
    | (none) "\<not> truthy_str ?o" "\<not> (truthy_str ?e \<and> truthy_str ?t)" "\<not> (truthy_str ?u \<and> truthy_str ?p)"
    by blast
  then show ?thesis
  proof cases
    case oauth
    with assms have c: "c = noCredentials \<lparr> oauthToken := ?o, useOAuth := Some True \<rparr>"
      by (simp add: getAtlassianCredentials_def Let_def)
    from oauth have "?o \<noteq> None" by (cases ?o) simp_all
    with oauth show ?thesis
      unfolding c by (simp add: noCredentials_def populated_def variantOfFlags_def)
  next
    case email
    with assms have c: "c = noCredentials \<lparr> siteName := cfg (js ''ATLASSIAN_SITE_NAME''),
        userEmail := ?e, apiToken := ?t, useBitbucketAuth := Some False \<rparr>"
      by (simp add: getAtlassianCredentials_def Let_def)
    from email have "?e \<noteq> None" by (cases ?e) simp_all
    with email show ?thesis
      unfolding c by (simp add: noCredentials_def populated_def variantOfFlags_def)
  next
    case user
    with assms have c: "c = noCredentials \<lparr> bitbucketUsername := ?u,
        bitbucketAppPassword := ?p, useBitbucketAuth := Some True \<rparr>"
      by (simp add: getAtlassianCredentials_def Let_def)
    from user have "?u \<noteq> None" by (cases ?u) simp_all
    with user show ?thesis
      unfolding c by (simp add: noCredentials_def populated_def variantOfFlags_def)
  next
    case none
    with assms show ?thesis by (simp add: getAtlassianCredentials_def Let_def)
  qed
qed

theorem credentials_one_variant_witness:
  "getAtlassianCredentials (map_of
      [(js ''ATLASSIAN_SITE_NAME'', js ''site''),
       (js ''ATLASSIAN_USER_EMAIL'', js ''a@b.c''),
       (js ''ATLASSIAN_API_TOKEN'', js ''secret'')])
     = Some (noCredentials \<lparr> siteName := Some (js ''site''), userEmail := Some (js ''a@b.c''),
          apiToken := Some (js ''secret''), useBitbucketAuth := Some False \<rparr>)
   \<and> populated (noCredentials \<lparr> siteName := Some (js ''site''), userEmail := Some (js ''a@b.c''),
          apiToken := Some (js ''secret''), useBitbucketAuth := Some False \<rparr>)
     = {BasicEmailToken}"
proof -
  let ?cfg = "map_of
      [(js ''ATLASSIAN_SITE_NAME'', js ''site''),
       (js ''ATLASSIAN_USER_EMAIL'', js ''a@b.c''),
       (js ''ATLASSIAN_API_TOKEN'', js ''secret'')]"
  let ?c = "noCredentials \<lparr> siteName := Some (js ''site''), userEmail := Some (js ''a@b.c''),
          apiToken := Some (js ''secret''), useBitbucketAuth := Some False \<rparr>"
  have run: "getAtlassianCredentials ?cfg = Some ?c"
    by (simp add: getAtlassianCredentials_def js_or_def js_def)
  from credentials_one_variant [OF run] have "populated ?c = {variantOfFlags ?c}"
    by blast
  moreover have "variantOfFlags ?c = BasicEmailToken"
    by (simp add: variantOfFlags_def noCredentials_def)
  ultimately show ?thesis using run by simp
qed

subsection \<open>Helper facts\<close>

lemma fetchAtlassian_responded:
  assumes "buildRequest (Number_toString rt) credentials path options = Inr req"
      and "fetch rt req = Responded r"
  shows "fetchAtlassian rt credentials path options =
           (fst (handleResponse rt r), SetTimeout (timeoutOf rt options) # snd (handleResponse rt r))"
  using assms by (simp add: fetchAtlassian_def split_beta)

lemma handleResponse_not_ok:
  assumes "exceedsLimit (MAX_RESPONSE_SIZE rt) r = None" and "\<not> ok r"
  shows "handleResponse rt r =
           (Inl (httpError (Number_toString rt) r), [ClearTimeout, ReadBody, ClearTimeout])"
  using assms by (simp add: handleResponse_def)

lemma handleResponse_ok:
  assumes "exceedsLimit (MAX_RESPONSE_SIZE rt) r = None" and "ok r"
  shows "handleResponse rt r = (Inr (decodeBody r), [ClearTimeout, ReadBody])"
  using assms by (simp add: handleResponse_def)

lemma handleResponse_oversized:
  assumes "exceedsLimit (MAX_RESPONSE_SIZE rt) r = Some n"
  shows "handleResponse rt r =
           (Inl (sizeError (Number_toString rt) (MAX_RESPONSE_SIZE rt) n), [ClearTimeout, ClearTimeout])"
  using assms by (simp add: handleResponse_def)

lemma kind_classifyStatus:
  "kind (classifyStatus st m c) = (if st = 401 then AuthInvalid else ApiError)"
  by (simp add: classifyStatus_def createApiError_def createAuthInvalidError_def)

lemma httpStatus_classifyStatus:
  "httpStatus (classifyStatus st m c) = (if st = 401 then None else Some st)"
  by (simp add: classifyStatus_def createApiError_def createAuthInvalidError_def)

lemma kind_httpError:
  "kind (httpError nts r) = (if status r = 401 then AuthInvalid else ApiError)"
  by (simp add: httpError_def kind_classifyStatus split: prod.split)

lemma httpStatus_httpError:
  "httpStatus (httpError nts r) = (if status r = 401 then None else Some (status r))"
  by (simp add: httpError_def httpStatus_classifyStatus split: prod.split)

text \<open>Facts for concrete runs with the OAuth credentials.\<close>

lemma authHeader_oauthCreds: "authHeader oauthCreds = Inr (js ''Bearer tok'')"
  by (simp add: authHeader_def oauthCreds_def noCredentials_def js_def)

lemma buildRequest_oauthCreds:
  "\<exists>req. buildRequest nts oauthCreds path options = Inr req"
  by (simp add: buildRequest_def authHeader_oauthCreds Let_def)

lemma fetch_exampleRuntime: "fetch (exampleRuntime (answering r)) req = Responded r"
  by (simp add: exampleRuntime_def answering_def)

lemma fetchAtlassian_example:
  "fetchAtlassian (exampleRuntime (answering r)) oauthCreds path options =
     (fst (handleResponse (exampleRuntime (answering r)) r),
      SetTimeout (timeoutOf (exampleRuntime (answering r)) options)
        # snd (handleResponse (exampleRuntime (answering r)) r))"
proof -
  obtain req where "buildRequest (Number_toString (exampleRuntime (answering r))) oauthCreds path options = Inr req"
    using buildRequest_oauthCreds by blast
  then show ?thesis by (rule fetchAtlassian_responded) (rule fetch_exampleRuntime)
qed

lemmas example_defs = exampleRuntime_def mkResponse_def js_def exceedsLimit_def ok_def
  parseInt_def isWhiteSpace_def isDigit_def digitsValue_def

subsection \<open>Status mapping\<close>

text \<open>
  C1, as amended. For every response that is not ok (status outside 200 to 299) and that
  the size check lets through (no \<open>content-length\<close>, or one that is empty, not a
  number, or not above the limit), the call throws an error of the kind and status of
  the table: status 401 gives AuthInvalid; every other status, among them 403, 404, 429
  and those from 500 on, gives ApiError with that status.
\<close>

theorem status_mapping:
  assumes "buildRequest (Number_toString rt) credentials path options = Inr req"
      and "fetch rt req = Responded r"
      and "\<not> ok r"
      and "exceedsLimit (MAX_RESPONSE_SIZE rt) r = None"
  shows "\<exists>e. fst (fetchAtlassian rt credentials path options) = Inl e
           \<and> kind e = (if status r = 401 then AuthInvalid else ApiError)
           \<and> (status r \<noteq> 401 \<longrightarrow> httpStatus e = Some (status r))"
  using assms
  by (simp add: fetchAtlassian_responded handleResponse_not_ok kind_httpError httpStatus_httpError)

text \<open>The six statuses of the table, each answered with an empty body.\<close>

theorem status_mapping_witness:
  "(\<exists>e. fst (fetchAtlassian (exampleRuntime (answering (mkResponse 401 (js ''Unauthorized'') [] [])))
          oauthCreds (js ''/2.0/user'') noOptions) = Inl e \<and> kind e = AuthInvalid)
   \<and> (\<exists>e. fst (fetchAtlassian (exampleRuntime (answering (mkResponse 403 (js ''Forbidden'') [] [])))
          oauthCreds (js ''/2.0/user'') noOptions) = Inl e
        \<and> kind e = ApiError \<and> httpStatus e = Some 403)
   \<and> (\<exists>e. fst (fetchAtlassian (exampleRuntime (answering (mkResponse 404 (js ''Not Found'') [] [])))
          oauthCreds (js ''/2.0/user'') noOptions) = Inl e
        \<and> kind e = ApiError \<and> httpStatus e = Some 404)
   \<and> (\<exists>e. fst (fetchAtlassian (exampleRuntime (answering (mkResponse 429 (js ''Too Many Requests'') [] [])))
          oauthCreds (js ''/2.0/user'') noOptions) = Inl e
        \<and> kind e = ApiError \<and> httpStatus e = Some 429)
   \<and> (\<exists>e. fst (fetchAtlassian (exampleRuntime (answering (mkResponse 500 (js ''Internal Server Error'') [] [])))
          oauthCreds (js ''/2.0/user'') noOptions) = Inl e
        \<and> kind e = ApiError \<and> httpStatus e = Some 500)
   \<and> (\<exists>e. fst (fetchAtlassian (exampleRuntime (answering (mkResponse 502 (js ''Bad Gateway'') [] [])))
          oauthCreds (js ''/2.0/user'') noOptions) = Inl e
        \<and> kind e = ApiError \<and> httpStatus e = Some 502)"
proof -
  have run: "\<exists>e. fst (fetchAtlassian (exampleRuntime (answering (mkResponse st phrase [] [])))
          oauthCreds (js ''/2.0/user'') noOptions) = Inl e
        \<and> kind e = (if st = 401 then AuthInvalid else ApiError)
        \<and> (st \<noteq> 401 \<longrightarrow> httpStatus e = Some st)"
    if "\<not> (200 \<le> st \<and> st \<le> 299)" for st phrase
  proof -
    let ?r = "mkResponse st phrase [] []"
    obtain q where b: "buildRequest (Number_toString (exampleRuntime (answering ?r)))
        oauthCreds (js ''/2.0/user'') noOptions = Inr q"
      using buildRequest_oauthCreds by blast
    from that have n: "\<not> ok ?r" by (simp add: ok_def mkResponse_def)
    have l: "exceedsLimit (MAX_RESPONSE_SIZE (exampleRuntime (answering ?r))) ?r = None"
      by (simp add: exceedsLimit_def mkResponse_def)
    have s: "status ?r = st" by (simp add: mkResponse_def)
    from status_mapping [OF b fetch_exampleRuntime n l] show ?thesis unfolding s .
  qed
  from run [of 401] run [of 403] run [of 404] run [of 429] run [of 500] run [of 502]
  show ?thesis by simp
qed

text \<open>
  The claim as stated fails: a 401 response that declares a length above the limit is
  rejected by the size check, which comes before the status is looked at, with
  ApiError 413.
\<close>

lemma show_nat_95367: "show_nat 95367 = js ''95367''" and show_nat_10: "show_nat 10 = js ''10''"
  by (simp_all add: show_nat.simps js_def)

theorem status_mapping_counterexample:
  "\<not> ok (mkResponse 401 (js ''Unauthorized'') [(js ''content-length'', js ''99999999999'')] (js ''denied''))
   \<and> fst (fetchAtlassian
        (exampleRuntime (answering (mkResponse 401 (js ''Unauthorized'')
            [(js ''content-length'', js ''99999999999'')] (js ''denied''))))
        oauthCreds (js ''/2.0/user'') noOptions)
     = Inl \<lparr> kind = ApiError,
             message = js ''Response size (95367MB) exceeds maximum limit of 10MB'',
             httpStatus = Some 413,
             cause = Some (SizeDetails 99999999999 10485760) \<rparr>"
proof -
  let ?r = "mkResponse 401 (js ''Unauthorized'') [(js ''content-length'', js ''99999999999'')] (js ''denied'')"
  have "exceedsLimit (MAX_RESPONSE_SIZE (exampleRuntime (answering ?r))) ?r = Some 99999999999"
    by (simp add: example_defs)
  then have "fst (handleResponse (exampleRuntime (answering ?r)) ?r)
      = Inl (sizeError plainDecimal 10485760 99999999999)"
    by (simp add: handleResponse_oversized) (simp add: exampleRuntime_def)
  moreover have "sizeError plainDecimal 10485760 99999999999
      = \<lparr> kind = ApiError, message = js ''Response size (95367MB) exceeds maximum limit of 10MB'',
          httpStatus = Some 413, cause = Some (SizeDetails 99999999999 10485760) \<rparr>"
    by (simp add: sizeError_def createApiError_def mathRoundMB_def plainDecimal_def
        show_nat_95367 show_nat_10) (simp add: js_def)
  ultimately show ?thesis by (simp add: fetchAtlassian_example) (simp add: ok_def mkResponse_def)
qed

subsection \<open>Vendor error extraction\<close>

lemma parse_repository_not_found:
  \<open>JSON_parse (js ''{"type":"error","error":{"message":"Repository not found","detail":"x"}}'')
    = Some (JObj [(js ''type'', JStr (js ''error'')),
                  (js ''error'', JObj [(js ''message'', JStr (js ''Repository not found'')),
                                       (js ''detail'', JStr (js ''x''))])])\<close>
  by (simp add: JSON_parse_def js_def isJsonSpace_def consToken_def consUnit_def putMember_def)

lemma extract_repository_not_found:
  "extractVendorError nts
     (JObj [(js ''type'', JStr (js ''error'')),
            (js ''error'', JObj [(js ''message'', JStr (js ''Repository not found'')),
                                 (js ''detail'', JStr (js ''x''))])])
    = Some (js ''Repository not found Detail: x'',
            JObj [(js ''message'', JStr (js ''Repository not found'')),
                  (js ''detail'', JStr (js ''x''))])"
  by (simp add: extractVendorError_def withDetail_def js_def)

lemma httpError_repository_not_found:
  assumes \<open>bodyText r = js ''{"type":"error","error":{"message":"Repository not found","detail":"x"}}''\<close>
      and "status r = 404"
  shows "httpError nts r =
     createApiError (js ''Bitbucket API: Resource not found - Repository not found Detail: x'') 404
       (ParsedBody (JObj [(js ''message'', JStr (js ''Repository not found'')),
                          (js ''detail'', JStr (js ''x''))]))"
proof -
  have p: "JSON_parse (bodyText r)
      = Some (JObj [(js ''type'', JStr (js ''error'')),
                    (js ''error'', JObj [(js ''message'', JStr (js ''Repository not found'')),
                                         (js ''detail'', JStr (js ''x''))])])"
    unfolding assms(1) by (rule parse_repository_not_found)
  have s: "bodyText r \<noteq> []" "startsWith (bodyText r) (js ''{'')"
    unfolding assms(1) by (simp_all add: startsWith_def js_def)
  have "parseErrorBody nts r =
      (js ''Repository not found Detail: x'',
       ParsedBody (JObj [(js ''message'', JStr (js ''Repository not found'')),
                         (js ''detail'', JStr (js ''x''))]))"
    by (simp add: parseErrorBody_def Let_def p s extract_repository_not_found)
  then show ?thesis
    by (simp add: httpError_def classifyStatus_def assms(2)) (simp add: js_def)
qed

text \<open>
  C2, as amended. A response with status 404 and the body
  \<open>{"type":"error","error":{"message":"Repository not found","detail":"x"}}\<close>, let
  through by the size check, makes the call throw an ApiError with status 404 whose
  message is \<open>Bitbucket API: Resource not found - Repository not found Detail: x\<close>: the
  vendor's message and detail are joined by \<open> Detail: \<close> with no full stop, after the
  prefix for the status. The cause is the vendor's error object.
\<close>

theorem vendor_error_extraction:
  assumes "buildRequest (Number_toString rt) credentials path options = Inr req"
      and "fetch rt req = Responded r"
      and "status r = 404"
      and \<open>bodyText r = js ''{"type":"error","error":{"message":"Repository not found","detail":"x"}}''\<close>
      and "exceedsLimit (MAX_RESPONSE_SIZE rt) r = None"
  shows "fst (fetchAtlassian rt credentials path options) =
     Inl \<lparr> kind = ApiError,
           message = js ''Bitbucket API: Resource not found - Repository not found Detail: x'',
           httpStatus = Some 404,
           cause = Some (ParsedBody (JObj [(js ''message'', JStr (js ''Repository not found'')),
                                           (js ''detail'', JStr (js ''x''))])) \<rparr>"
proof -
  from assms(3) have "\<not> ok r" by (simp add: ok_def)
  with assms show ?thesis
    by (simp add: fetchAtlassian_responded handleResponse_not_ok
        httpError_repository_not_found createApiError_def)
qed

theorem vendor_error_extraction_witness:
  \<open>fst (fetchAtlassian
      (exampleRuntime (answering (mkResponse 404 (js ''Not Found'') [(js ''content-length'', js ''73'')]
         (js ''{"type":"error","error":{"message":"Repository not found","detail":"x"}}''))))
      oauthCreds (js ''/2.0/repositories/w/r'') noOptions) =
     Inl \<lparr> kind = ApiError,
           message = js ''Bitbucket API: Resource not found - Repository not found Detail: x'',
           httpStatus = Some 404,
           cause = Some (ParsedBody (JObj [(js ''message'', JStr (js ''Repository not found'')),
                                           (js ''detail'', JStr (js ''x''))])) \<rparr>\<close>
proof -
  let ?r = \<open>mkResponse 404 (js ''Not Found'') [(js ''content-length'', js ''73'')]
      (js ''{"type":"error","error":{"message":"Repository not found","detail":"x"}}'')\<close>
  obtain q where b: "buildRequest (Number_toString (exampleRuntime (answering ?r)))
      oauthCreds (js ''/2.0/repositories/w/r'') noOptions = Inr q"
    using buildRequest_oauthCreds by blast
  have s: "status ?r = 404" by (simp add: mkResponse_def)
  have t: \<open>bodyText ?r = js ''{"type":"error","error":{"message":"Repository not found","detail":"x"}}''\<close>
    by (simp add: mkResponse_def)
  have l: "exceedsLimit (MAX_RESPONSE_SIZE (exampleRuntime (answering ?r))) ?r = None"
    by (simp add: example_defs)
  from vendor_error_extraction [OF b fetch_exampleRuntime s t l] show ?thesis .
qed

text \<open>
  The claim as stated fails: the message is not \<open>Repository not found. Detail: x\<close>.
\<close>

theorem vendor_error_extraction_counterexample:
  \<open>fst (fetchAtlassian
      (exampleRuntime (answering (mkResponse 404 (js ''Not Found'') []
         (js ''{"type":"error","error":{"message":"Repository not found","detail":"x"}}''))))
      oauthCreds (js ''/2.0/repositories/w/r'') noOptions) =
     Inl \<lparr> kind = ApiError,
           message = js ''Bitbucket API: Resource not found - Repository not found Detail: x'',
           httpStatus = Some 404,
           cause = Some (ParsedBody (JObj [(js ''message'', JStr (js ''Repository not found'')),
                                           (js ''detail'', JStr (js ''x''))])) \<rparr>
   \<and> js ''Bitbucket API: Resource not found - Repository not found Detail: x''
       \<noteq> js ''Repository not found. Detail: x''\<close>
proof -
  let ?r = \<open>mkResponse 404 (js ''Not Found'') []
      (js ''{"type":"error","error":{"message":"Repository not found","detail":"x"}}'')\<close>
  have l: "exceedsLimit (MAX_RESPONSE_SIZE (exampleRuntime (answering ?r))) ?r = None"
    by (simp add: exceedsLimit_def mkResponse_def)
  have n: "\<not> ok ?r" by (simp add: ok_def mkResponse_def)
  have "httpError plainDecimal ?r =
     createApiError (js ''Bitbucket API: Resource not found - Repository not found Detail: x'') 404
       (ParsedBody (JObj [(js ''message'', JStr (js ''Repository not found'')),
                          (js ''detail'', JStr (js ''x''))]))"
    by (rule httpError_repository_not_found) (simp_all add: mkResponse_def)
  then have "fst (handleResponse (exampleRuntime (answering ?r)) ?r) =
     Inl (createApiError (js ''Bitbucket API: Resource not found - Repository not found Detail: x'') 404
       (ParsedBody (JObj [(js ''message'', JStr (js ''Repository not found'')),
                          (js ''detail'', JStr (js ''x''))])))"
    using handleResponse_not_ok [OF l n] by (simp add: exampleRuntime_def)
  then show ?thesis
    by (simp add: fetchAtlassian_example createApiError_def) (simp add: js_def)
qed

subsection \<open>Empty bodies\<close>





subsection \<open>Timeout and timer\<close>

lemma timerArmed_handleResponse: "\<not> timerArmed a (snd (handleResponse rt r))"
  by (simp add: handleResponse_def split: option.split)

lemma timerArmed_fetchAtlassian: "\<not> timerArmed False (snd (fetchAtlassian rt credentials path options))"
  by (simp add: fetchAtlassian_def Let_def timerArmed_handleResponse split_beta
      split: sum.split fetch_outcome.split)

lemma fetchAtlassian_timed_out:
  assumes "buildRequest (Number_toString rt) credentials path options = Inr req"
      and "fetch rt req = TimedOut msg"
  shows "fetchAtlassian rt credentials path options =
     (Inl (createApiError
             (js ''Request timeout: Bitbucket API did not respond within ''
                @ Number_toString rt (timeoutOf rt options) (- 3) @ js '' seconds'')
             408 (Thrown (abortError msg))),
      [SetTimeout (timeoutOf rt options), TimerFired, ClearTimeout])"
  using assms by (simp add: fetchAtlassian_def Let_def handleFailure_def abortError_def)

text \<open>
  C4. When the timer fires before \<open>fetch\<close> settles, the call throws an ApiError with
  status 408 whose message gives the timeout in force (the option \<open>timeout\<close>, or the
  configured default), in seconds. On every path of every call, no timer is armed when
  the call ends: the timer armed before \<open>fetch\<close> has been cleared or has fired.
\<close>

theorem timeout_handling:
  "(\<forall>req msg. buildRequest (Number_toString rt) credentials path options = Inr req
           \<and> fetch rt req = TimedOut msg \<longrightarrow>
      fst (fetchAtlassian rt credentials path options) =
        Inl \<lparr> kind = ApiError,
              message = js ''Request timeout: Bitbucket API did not respond within ''
                @ Number_toString rt (timeoutOf rt options) (- 3) @ js '' seconds'',
              httpStatus = Some 408,
              cause = Some (Thrown (abortError msg)) \<rparr>)
   \<and> \<not> timerArmed False (snd (fetchAtlassian rt credentials path options))"
  by (simp add: timerArmed_fetchAtlassian fetchAtlassian_timed_out createApiError_def)

lemma show_nat_30: "show_nat 30 = js ''30''"
  by (simp add: show_nat.simps js_def)

theorem timeout_handling_witness:
  "fetchAtlassian (exampleRuntime (\<lambda>req. TimedOut (js ''This operation was aborted'')))
      oauthCreds (js ''/2.0/user'') noOptions =
     (Inl \<lparr> kind = ApiError,
            message = js ''Request timeout: Bitbucket API did not respond within 30 seconds'',
            httpStatus = Some 408,
            cause = Some (Thrown (abortError (js ''This operation was aborted''))) \<rparr>,
      [SetTimeout 30000, TimerFired, ClearTimeout])
   \<and> \<not> timerArmed False [SetTimeout 30000, TimerFired, ClearTimeout]"
proof -
  let ?rt = "exampleRuntime (\<lambda>req. TimedOut (js ''This operation was aborted''))"
  obtain q where b: "buildRequest (Number_toString ?rt) oauthCreds (js ''/2.0/user'') noOptions = Inr q"
    using buildRequest_oauthCreds by blast
  have f: "fetch ?rt q = TimedOut (js ''This operation was aborted'')"
    by (simp add: exampleRuntime_def)
  have t: "timeoutOf ?rt noOptions = 30000"
    by (simp add: timeoutOf_def noOptions_def exampleRuntime_def)
  have n: "Number_toString ?rt 30000 (- 3) = js ''30''"
    by (simp add: exampleRuntime_def plainDecimal_def show_nat_30)
  have e: "snd (fetchAtlassian ?rt oauthCreds (js ''/2.0/user'') noOptions)
      = [SetTimeout 30000, TimerFired, ClearTimeout]"
    using fetchAtlassian_timed_out [OF b f] by (simp add: t)
  from timeout_handling [of ?rt oauthCreds "js ''/2.0/user''" noOptions] b f
  have "fst (fetchAtlassian ?rt oauthCreds (js ''/2.0/user'') noOptions) =
        Inl \<lparr> kind = ApiError,
              message = js ''Request timeout: Bitbucket API did not respond within ''
                @ js ''30'' @ js '' seconds'',
              httpStatus = Some 408,
              cause = Some (Thrown (abortError (js ''This operation was aborted''))) \<rparr>"
    and "\<not> timerArmed False (snd (fetchAtlassian ?rt oauthCreds (js ''/2.0/user'') noOptions))"
    unfolding t n by blast+
  then show ?thesis unfolding e by (simp add: prod_eq_iff e) (simp add: js_def)
qed

subsection \<open>The size check\<close>






text \<open>
  C10. When the response has no \<open>content-length\<close> header the size check does nothing:
  a response that is ok has its body read and decoded, whatever its size, and one that
  is not ok is turned into the error of its status. An error of the size check (the one
  whose cause is the object \<open>{ responseSize, limit }\<close>) is thrown only when the header
  is present and the number read from it is above the limit.
\<close>

theorem size_check_needs_declared_length:
  assumes "buildRequest (Number_toString rt) credentials path options = Inr req"
      and "fetch rt req = Responded r"
  shows "(headersGet r (js ''content-length'') = None \<longrightarrow>
            fetchAtlassian rt credentials path options =
              (if ok r
               then (Inr (decodeBody r),
                     [SetTimeout (timeoutOf rt options), ClearTimeout, ReadBody])
               else (Inl (httpError (Number_toString rt) r),
                     [SetTimeout (timeoutOf rt options), ClearTimeout, ReadBody, ClearTimeout])))
       \<and> (\<forall>e n lim. fst (fetchAtlassian rt credentials path options) = Inl e
              \<and> cause e = Some (SizeDetails n lim) \<longrightarrow>
            (\<exists>s. headersGet r (js ''content-length'') = Some s \<and> parseInt s = Some n
                 \<and> lim = MAX_RESPONSE_SIZE rt \<and> lim < n))"
proof (intro conjI impI allI)
  assume "headersGet r (js ''content-length'') = None"
  then have "exceedsLimit (MAX_RESPONSE_SIZE rt) r = None" by (simp add: exceedsLimit_def)
  then show "fetchAtlassian rt credentials path options =
      (if ok r
       then (Inr (decodeBody r), [SetTimeout (timeoutOf rt options), ClearTimeout, ReadBody])
       else (Inl (httpError (Number_toString rt) r),
             [SetTimeout (timeoutOf rt options), ClearTimeout, ReadBody, ClearTimeout]))"
    using assms by (simp add: fetchAtlassian_responded handleResponse_ok handleResponse_not_ok)
next
  fix e n lim
  assume a: "fst (fetchAtlassian rt credentials path options) = Inl e
      \<and> cause e = Some (SizeDetails n lim)"
  show "\<exists>s. headersGet r (js ''content-length'') = Some s \<and> parseInt s = Some n
      \<and> lim = MAX_RESPONSE_SIZE rt \<and> lim < n"
  proof (cases "exceedsLimit (MAX_RESPONSE_SIZE rt) r")
    case None
    have "\<And>nts. cause (httpError nts r) \<noteq> Some (SizeDetails n lim)"
      by (simp add: httpError_def classifyStatus_def createApiError_def createAuthInvalidError_def
          parseErrorBody_def Let_def split: prod.split option.split)
    with None a assms show ?thesis
      by (cases "ok r") (auto simp: fetchAtlassian_responded handleResponse_ok handleResponse_not_ok)
  next
    case (Some k)
    with a assms have "n = k" "lim = MAX_RESPONSE_SIZE rt"
      by (auto simp: fetchAtlassian_responded handleResponse_oversized sizeError_def createApiError_def)
    with Some show ?thesis
      by (auto simp: exceedsLimit_def split: option.splits if_splits)
  qed
qed

subsection \<open>The request\<close>

lemma authHeader_kind: "authHeader c = Inl e \<Longrightarrow> kind e = AuthInvalid"
  by (auto simp: authHeader_def createAuthInvalidError_def
      split: if_splits option.splits prod.splits)

lemma buildRequest_Inl: "buildRequest nts c p opts = Inl e \<Longrightarrow> kind e = AuthInvalid"
  by (auto simp: buildRequest_def Let_def authHeader_kind split: sum.splits)

lemma buildRequest_Inr:
  assumes "buildRequest nts c p opts = Inr req"
  shows "\<exists>auth. reqHeaders req = buildHeaders auth opts
           \<and> reqBody req = encodeBody nts (buildHeaders auth opts) (body opts)"
  using assms by (auto simp: buildRequest_def Let_def split: sum.splits)

lemma not_multipart_json: "\<not> includesStr (js ''application/json'') (js ''multipart/form-data'')"
  by (simp add: js_def startsWith_def)

lemma not_urlencoded_json: "js ''application/json'' \<noteq> js ''application/x-www-form-urlencoded''"
  by (simp add: js_def)

lemma encodeBody_string: "s \<noteq> [] \<Longrightarrow> encodeBody nts hs (Some (JStr s)) = Some (JStr s)"
  by (simp add: encodeBody_def)

lemma encodeBody_falsy: "\<not> truthy v \<Longrightarrow> encodeBody nts hs (Some v) = None"
  by (simp add: encodeBody_def)

lemma encodeBody_structured:
  assumes "truthy v" and "\<forall>s. v \<noteq> JStr s" and "hs (js ''Content-Type'') = Some ct"
  shows "encodeBody nts hs (Some v) =
     (if includesStr ct (js ''multipart/form-data'') \<or> ct = js ''application/x-www-form-urlencoded''
      then Some v else Some (JStr (JSON_stringify nts v)))"
  using assms by (cases v) (simp_all add: encodeBody_def)

text \<open>
  C7, as amended. The request is built unless the credentials lack a field, and then the
  error is AuthInvalid: no body makes the builder fail, and no UnexpectedError comes from
  it. In the request built, a body that is a non-empty string is passed unchanged; a
  truthy body that is not a string is passed as its JSON text when the effective
  \<open>Content-Type\<close> is \<open>application/json\<close>, and likewise for every other content type
  that neither contains \<open>multipart/form-data\<close> nor is
  \<open>application/x-www-form-urlencoded\<close>; for those two the value is passed as it is,
  not serialized. A falsy body (absent, \<open>null\<close>, \<open>false\<close>, zero, the empty string) is
  not sent.
\<close>

theorem body_encoding:
  "(\<forall>e. buildRequest nts credentials path options = Inl e \<longrightarrow> kind e = AuthInvalid)
   \<and> (\<forall>req. buildRequest nts credentials path options = Inr req \<longrightarrow>
        (\<forall>s. body options = Some (JStr s) \<and> s \<noteq> [] \<longrightarrow> reqBody req = Some (JStr s))
      \<and> (\<forall>v. body options = Some v \<and> truthy v \<and> (\<forall>s. v \<noteq> JStr s)
              \<and> reqHeaders req (js ''Content-Type'') = Some (js ''application/json'') \<longrightarrow>
             reqBody req = Some (JStr (JSON_stringify nts v)))
      \<and> (\<forall>v ct. body options = Some v \<and> truthy v \<and> (\<forall>s. v \<noteq> JStr s)
              \<and> reqHeaders req (js ''Content-Type'') = Some ct \<longrightarrow>
             reqBody req =
               (if includesStr ct (js ''multipart/form-data'')
                   \<or> ct = js ''application/x-www-form-urlencoded''
                then Some v else Some (JStr (JSON_stringify nts v))))
      \<and> (body options = None \<or> (\<exists>v. body options = Some v \<and> \<not> truthy v) \<longrightarrow>
             reqBody req = None))"
proof (intro conjI allI impI)
  fix e assume "buildRequest nts credentials path options = Inl e"
  then show "kind e = AuthInvalid" by (rule buildRequest_Inl)
next
  fix req s
  assume b: "buildRequest nts credentials path options = Inr req"
    and a: "body options = Some (JStr s) \<and> s \<noteq> []"
  from buildRequest_Inr [OF b] a show "reqBody req = Some (JStr s)"
    by (auto simp: encodeBody_string)
next
  fix req v
  assume b: "buildRequest nts credentials path options = Inr req"
    and a: "body options = Some v \<and> truthy v \<and> (\<forall>s. v \<noteq> JStr s)
              \<and> reqHeaders req (js ''Content-Type'') = Some (js ''application/json'')"
  from buildRequest_Inr [OF b] obtain auth where
    h: "reqHeaders req = buildHeaders auth options"
    and r: "reqBody req = encodeBody nts (buildHeaders auth options) (body options)" by blast
  from a h have "buildHeaders auth options (js ''Content-Type'') = Some (js ''application/json'')"
    by simp
  with a have "encodeBody nts (buildHeaders auth options) (Some v) = Some (JStr (JSON_stringify nts v))"
    by (simp add: encodeBody_structured not_multipart_json not_urlencoded_json)
  with r a show "reqBody req = Some (JStr (JSON_stringify nts v))" by simp
next
  fix req v ct
  assume b: "buildRequest nts credentials path options = Inr req"
    and a: "body options = Some v \<and> truthy v \<and> (\<forall>s. v \<noteq> JStr s)
              \<and> reqHeaders req (js ''Content-Type'') = Some ct"
  from buildRequest_Inr [OF b] obtain auth where
    h: "reqHeaders req = buildHeaders auth options"
    and r: "reqBody req = encodeBody nts (buildHeaders auth options) (body options)" by blast
  from a h have "buildHeaders auth options (js ''Content-Type'') = Some ct" by simp
  with a have "encodeBody nts (buildHeaders auth options) (Some v) =
     (if includesStr ct (js ''multipart/form-data'') \<or> ct = js ''application/x-www-form-urlencoded''
      then Some v else Some (JStr (JSON_stringify nts v)))"
    by (simp add: encodeBody_structured)
  with r a show "reqBody req =
     (if includesStr ct (js ''multipart/form-data'') \<or> ct = js ''application/x-www-form-urlencoded''
      then Some v else Some (JStr (JSON_stringify nts v)))" by simp
next
  fix req
  assume b: "buildRequest nts credentials path options = Inr req"
    and a: "body options = None \<or> (\<exists>v. body options = Some v \<and> \<not> truthy v)"
  from buildRequest_Inr [OF b] a show "reqBody req = None"
    by (auto simp: encodeBody_falsy) (simp add: encodeBody_def)
qed

lemma contentType_buildHeaders:
  "buildHeaders auth opts (js ''Content-Type'') =
     Some (case callerHeaders opts (js ''Content-Type'') of
             None \<Rightarrow> js ''application/json''
           | Some ct \<Rightarrow> ct)"
  by (simp add: buildHeaders_def Let_def orDefault_def map_add_def js_def split: option.split)

lemma accept_buildHeaders:
  "buildHeaders auth opts (js ''Accept'') =
     (case callerHeaders opts (js ''Accept'') of
        None \<Rightarrow> Some (js ''application/json'')
      | Some v \<Rightarrow> Some v)"
  by (simp add: buildHeaders_def Let_def map_add_def js_def split: option.split)

lemma stringify_name_dev:
  \<open>JSON_stringify nts (JObj [(js ''name'', JStr (js ''dev''))]) = js ''{"name":"dev"}''\<close>
  by (simp add: quoteJSONString_def quoteUnit_def isHighSurrogate_def isLowSurrogate_def js_def)

theorem body_encoding_witness:
  \<open>map_sum kind reqBody (buildRequest plainDecimal oauthCreds (js ''/2.0/repositories/w/r/refs/branches'')
       (noOptions \<lparr> method' := Some POST, body := Some (JObj [(js ''name'', JStr (js ''dev''))]) \<rparr>))
     = Inr (Some (JStr (js ''{"name":"dev"}'')))
   \<and> map_sum kind reqBody (buildRequest plainDecimal oauthCreds (js ''/2.0/repositories/w/r/src'')
       (noOptions \<lparr> method' := Some POST,
          headers := Some [js ''Content-Type'' \<mapsto> js ''multipart/form-data; boundary=b''],
          body := Some (JStr (js ''--b--'')) \<rparr>))
     = Inr (Some (JStr (js ''--b--'')))
   \<and> map_sum kind reqBody (buildRequest plainDecimal noCredentials (js ''/2.0/user'') noOptions)
     = Inl AuthInvalid\<close>
proof -
  let ?o1 = "noOptions \<lparr> method' := Some POST, body := Some (JObj [(js ''name'', JStr (js ''dev''))]) \<rparr>"
  let ?o2 = "noOptions \<lparr> method' := Some POST,
          headers := Some [js ''Content-Type'' \<mapsto> js ''multipart/form-data; boundary=b''],
          body := Some (JStr (js ''--b--'')) \<rparr>"
  obtain q1 where b1: "buildRequest plainDecimal oauthCreds (js ''/2.0/repositories/w/r/refs/branches'') ?o1 = Inr q1"
    using buildRequest_oauthCreds by blast
  obtain q2 where b2: "buildRequest plainDecimal oauthCreds (js ''/2.0/repositories/w/r/src'') ?o2 = Inr q2"
    using buildRequest_oauthCreds by blast
  obtain e where b3: "buildRequest plainDecimal noCredentials (js ''/2.0/user'') noOptions = Inl e"
    by (simp add: buildRequest_def authHeader_def noCredentials_def)
  from buildRequest_Inr [OF b1] have c1: "reqHeaders q1 (js ''Content-Type'') = Some (js ''application/json'')"
    by (auto simp: contentType_buildHeaders callerHeaders_def noOptions_def)
  have v1: "body ?o1 = Some (JObj [(js ''name'', JStr (js ''dev''))])
      \<and> truthy (JObj [(js ''name'', JStr (js ''dev''))])
      \<and> (\<forall>s. JObj [(js ''name'', JStr (js ''dev''))] \<noteq> JStr s)
      \<and> reqHeaders q1 (js ''Content-Type'') = Some (js ''application/json'')"
    using c1 by simp
  have v2: "body ?o2 = Some (JStr (js ''--b--'')) \<and> js ''--b--'' \<noteq> []"
    by (simp add: js_def)
  from body_encoding [of plainDecimal oauthCreds "js ''/2.0/repositories/w/r/refs/branches''" ?o1] b1 v1
  have "reqBody q1 = Some (JStr (JSON_stringify plainDecimal (JObj [(js ''name'', JStr (js ''dev''))])))"
    by blast
  then have r1: \<open>reqBody q1 = Some (JStr (js ''{"name":"dev"}''))\<close>
    by (simp only: stringify_name_dev)
  from body_encoding [of plainDecimal oauthCreds "js ''/2.0/repositories/w/r/src''" ?o2] b2 v2
  have r2: "reqBody q2 = Some (JStr (js ''--b--''))" by blast
  from body_encoding [of plainDecimal noCredentials "js ''/2.0/user''" noOptions] b3
  have r3: "kind e = AuthInvalid" by blast
  show ?thesis
    unfolding b1 b2 b3 by (simp add: r1 r2 r3)
qed

text \<open>
  The claim as stated fails: a structured body with the content type \<open>text/plain\<close> is
  serialized to JSON like any other, the request is built and sent, and the call
  returns; no UnexpectedError is thrown.
\<close>

lemma stringify_ok_true: \<open>JSON_stringify nts (JObj [(js ''ok'', JBool True)]) = js ''{"ok":true}''\<close>
  by (simp add: quoteJSONString_def quoteUnit_def isHighSurrogate_def isLowSurrogate_def js_def)

lemma parse_empty_object: "JSON_parse (js ''{}'') = Some (JObj [])"
  by (simp add: JSON_parse_def js_def isJsonSpace_def consToken_def)

theorem body_encoding_counterexample:
  \<open>map_sum kind reqBody (buildRequest plainDecimal oauthCreds (js ''/2.0/repositories/w/r/src'')
       (noOptions \<lparr> method' := Some POST,
          headers := Some [js ''Content-Type'' \<mapsto> js ''text/plain''],
          body := Some (JObj [(js ''ok'', JBool True)]) \<rparr>))
     = Inr (Some (JStr (js ''{"ok":true}'')))
   \<and> fst (fetchAtlassian (exampleRuntime (answering (mkResponse 200 (js ''OK'') [] (js ''{}''))))
       oauthCreds (js ''/2.0/repositories/w/r/src'')
       (noOptions \<lparr> method' := Some POST,
          headers := Some [js ''Content-Type'' \<mapsto> js ''text/plain''],
          body := Some (JObj [(js ''ok'', JBool True)]) \<rparr>))
     = Inr (JObj [])\<close>
proof -
  let ?o = "noOptions \<lparr> method' := Some POST,
          headers := Some [js ''Content-Type'' \<mapsto> js ''text/plain''],
          body := Some (JObj [(js ''ok'', JBool True)]) \<rparr>"
  let ?r = "mkResponse 200 (js ''OK'') [] (js ''{}'')"
  obtain q where b: "buildRequest plainDecimal oauthCreds (js ''/2.0/repositories/w/r/src'') ?o = Inr q"
    using buildRequest_oauthCreds by blast
  from buildRequest_Inr [OF b] obtain auth where
    r: "reqBody q = encodeBody plainDecimal (buildHeaders auth ?o) (body ?o)" by blast
  have ct: "buildHeaders auth ?o (js ''Content-Type'') = Some (js ''text/plain'')"
    by (simp add: contentType_buildHeaders callerHeaders_def)
  have n: "\<not> includesStr (js ''text/plain'') (js ''multipart/form-data'')"
    "js ''text/plain'' \<noteq> js ''application/x-www-form-urlencoded''"
    by (simp_all add: js_def startsWith_def)
  have "encodeBody plainDecimal (buildHeaders auth ?o) (Some (JObj [(js ''ok'', JBool True)]))
      = Some (JStr (JSON_stringify plainDecimal (JObj [(js ''ok'', JBool True)])))"
    using ct n by (simp add: encodeBody_structured)
  with r have 1: \<open>reqBody q = Some (JStr (js ''{"ok":true}''))\<close>
    by (simp only: stringify_ok_true) simp
  have l: "exceedsLimit (MAX_RESPONSE_SIZE (exampleRuntime (answering ?r))) ?r = None"
    by (simp add: exceedsLimit_def mkResponse_def)
  have o: "ok ?r" by (simp add: ok_def mkResponse_def)
  have "decodeBody ?r = JObj []"
    unfolding decodeBody_def Let_def
    by (simp add: mkResponse_def orDefault_def parse_empty_object) (simp add: js_def trim_def isWhiteSpace_def)
  with handleResponse_ok [OF l o] have 2: "fst (fetchAtlassian (exampleRuntime (answering ?r))
       oauthCreds (js ''/2.0/repositories/w/r/src'') ?o) = Inr (JObj [])"
    by (simp add: fetchAtlassian_example)
  show ?thesis unfolding b using 1 2 by simp
qed

subsection \<open>The Accept header\<close>

text \<open>
  C8, as amended. The request built carries \<open>Accept: application/json\<close> whenever the
  caller's headers have no entry named \<open>Accept\<close>; an entry of that name in the caller's
  headers replaces it.
\<close>

theorem accept_header:
  assumes "buildRequest nts credentials path options = Inr req"
  shows "reqHeaders req (js ''Accept'') =
     (case callerHeaders options (js ''Accept'') of
        None \<Rightarrow> Some (js ''application/json'')
      | Some v \<Rightarrow> Some v)"
  using buildRequest_Inr [OF assms] by (auto simp: accept_buildHeaders)

theorem accept_header_witness:
  "map_sum kind (\<lambda>req. reqHeaders req (js ''Accept''))
     (buildRequest plainDecimal oauthCreds (js ''/2.0/user'')
        (noOptions \<lparr> headers := Some [js ''X-Request-Id'' \<mapsto> js ''1''] \<rparr>))
    = Inr (Some (js ''application/json''))"
proof -
  let ?o = "noOptions \<lparr> headers := Some [js ''X-Request-Id'' \<mapsto> js ''1''] \<rparr>"
  obtain q where b: "buildRequest plainDecimal oauthCreds (js ''/2.0/user'') ?o = Inr q"
    using buildRequest_oauthCreds by blast
  have "callerHeaders ?o (js ''Accept'') = None"
    by (simp add: callerHeaders_def js_def)
  with accept_header [OF b] show ?thesis unfolding b by simp
qed

text \<open>The claim as stated fails: a caller's \<open>Accept\<close> header replaces the default.\<close>

theorem accept_header_counterexample:
  "map_sum kind (\<lambda>req. reqHeaders req (js ''Accept''))
     (buildRequest plainDecimal oauthCreds (js ''/2.0/user'')
        (noOptions \<lparr> headers := Some [js ''Accept'' \<mapsto> js ''text/html''] \<rparr>))
    = Inr (Some (js ''text/html''))
   \<and> js ''text/html'' \<noteq> js ''application/json''"
proof -
  let ?o = "noOptions \<lparr> headers := Some [js ''Accept'' \<mapsto> js ''text/html''] \<rparr>"
  obtain q where b: "buildRequest plainDecimal oauthCreds (js ''/2.0/user'') ?o = Inr q"
    using buildRequest_oauthCreds by blast
  from buildRequest_Inr [OF b] have "reqHeaders q (js ''Accept'') = Some (js ''text/html'')"
    by (auto simp: accept_buildHeaders callerHeaders_def)
  then show ?thesis unfolding b by (simp add: js_def)
qed

theorem size_check_needs_declared_length_witness:
  "fetchAtlassian (exampleRuntime (answering (mkResponse 200 (js ''OK'') [] (js ''{}''))))
      oauthCreds (js ''/2.0/user'') noOptions
     = (Inr (JObj []), [SetTimeout 30000, ClearTimeout, ReadBody])
   \<and> (\<exists>s. headersGet (mkResponse 200 (js ''OK'') [(js ''content-length'', js ''10485761'')] (js ''{}''))
             (js ''content-length'') = Some s
          \<and> parseInt s = Some 10485761 \<and> (10485760 :: int) < 10485761)"
proof -
  let ?r1 = "mkResponse 200 (js ''OK'') [] (js ''{}'')"
  let ?r2 = "mkResponse 200 (js ''OK'') [(js ''content-length'', js ''10485761'')] (js ''{}'')"
  let ?rt1 = "exampleRuntime (answering ?r1)"
  let ?rt2 = "exampleRuntime (answering ?r2)"
  obtain q1 where b1: "buildRequest (Number_toString ?rt1) oauthCreds (js ''/2.0/user'') noOptions = Inr q1"
    using buildRequest_oauthCreds by blast
  obtain q2 where b2: "buildRequest (Number_toString ?rt2) oauthCreds (js ''/2.0/user'') noOptions = Inr q2"
    using buildRequest_oauthCreds by blast
  have h: "headersGet ?r1 (js ''content-length'') = None" by (simp add: mkResponse_def)
  have o: "ok ?r1" by (simp add: ok_def mkResponse_def)
  have d: "decodeBody ?r1 = JObj []"
    unfolding decodeBody_def Let_def
    by (simp add: mkResponse_def orDefault_def parse_empty_object) (simp add: js_def trim_def isWhiteSpace_def)
  have t: "timeoutOf ?rt1 noOptions = 30000"
    by (simp add: timeoutOf_def noOptions_def exampleRuntime_def)
  from size_check_needs_declared_length [OF b1 fetch_exampleRuntime] h o
  have 1: "fetchAtlassian ?rt1 oauthCreds (js ''/2.0/user'') noOptions
     = (Inr (JObj []), [SetTimeout 30000, ClearTimeout, ReadBody])"
    by (simp add: d t)
  have x: "exceedsLimit (MAX_RESPONSE_SIZE ?rt2) ?r2 = Some 10485761"
    by (simp add: example_defs)
  have e: "fst (fetchAtlassian ?rt2 oauthCreds (js ''/2.0/user'') noOptions)
      = Inl (sizeError plainDecimal 10485760 10485761)
    \<and> cause (sizeError plainDecimal 10485760 10485761) = Some (SizeDetails 10485761 10485760)"
    using handleResponse_oversized [OF x]
    by (simp add: fetchAtlassian_example sizeError_def createApiError_def) (simp add: exampleRuntime_def)
  from size_check_needs_declared_length [OF b2 fetch_exampleRuntime] e
  have 2: "\<exists>s. headersGet ?r2 (js ''content-length'') = Some s \<and> parseInt s = Some 10485761
      \<and> 10485760 = MAX_RESPONSE_SIZE ?rt2 \<and> (10485760 :: int) < 10485761"
    by blast
  from 1 2 show ?thesis by blast
qed

end
